theory Spec2Isabelle
  imports Complex_Main
begin

section \<open>Oblique-to-axial resampling (interfaces/nipype\_interface\_axialsampling.py)\<close>

text \<open>
  The module is numerical glue around NumPy, nibabel and nilearn. Floating-point numbers
  are idealised as \<^typ>\<open>real\<close>: there is no rounding error, no overflow and no NaN in this
  development. The sign of a zero is kept, since \<open>np.arctan2\<close> reads it. Python exceptions are values of \<open>error + 'a\<close>.
\<close>

datatype error = LoadError | SaveError | TypeError | GeometryError | ShapeMismatchError
  | InterpolationError

text \<open>
  \<open>LoadError\<close>: \<open>nib.load\<close> raises. \<open>SaveError\<close>: \<open>nib.save\<close> raises.
  \<open>TypeError\<close>: a path function is applied to \<open>None\<close>. \<open>ShapeMismatchError\<close>: NumPy
  raises because two operand shapes cannot be broadcast. \<open>InterpolationError\<close>: whatever
  the resampling library raises. \<open>GeometryError\<close> is the error the specification names for
  a singular target transform or a non-positive voxel spacing.
\<close>

subsection \<open>One-dimensional NumPy arrays and small matrices\<close>

type_synonym vec = "real list"
type_synonym mat = "real list list"

text \<open>\<open>a * b\<close> on one-dimensional arrays: equal lengths, or one operand of length 1.\<close>

definition np_mul :: "vec \<Rightarrow> vec \<Rightarrow> error + vec" where
  "np_mul xs ys =
     (if length xs = length ys then Inr (map2 (*) xs ys)
      else if length xs = 1 then Inr (map (\<lambda>y. hd xs * y) ys)
      else if length ys = 1 then Inr (map (\<lambda>x. x * hd ys) xs)
      else Inl ShapeMismatchError)"

definition np_eye :: "nat \<Rightarrow> mat" where
  "np_eye n = map (\<lambda>i. map (\<lambda>j. if i = j then 1 else 0) [0..<n]) [0..<n]"

definition np_diag :: "mat \<Rightarrow> vec" where
  "np_diag m = map (\<lambda>i. m ! i ! i) [0..<length m]"

text \<open>\<open>np.fill_diagonal(a, val)\<close> with an array \<open>val\<close>: its values are written along the
  diagonal, repeated when there are fewer values than diagonal entries.\<close>

definition np_fill_diagonal :: "mat \<Rightarrow> vec \<Rightarrow> mat" where
  "np_fill_diagonal a val = map (\<lambda>i. (a ! i)[i := val ! (i mod length val)]) [0..<length a]"

text \<open>\<open>a[i, j] = x\<close>.\<close>

definition set_entry :: "mat \<Rightarrow> nat \<Rightarrow> nat \<Rightarrow> real \<Rightarrow> mat" where
  "set_entry a i j x = a[i := (a ! i)[j := x]]"

text \<open>\<open>a[:3, 3] = v\<close> for \<open>v\<close> of length 3.\<close>

definition set_translation :: "mat \<Rightarrow> vec \<Rightarrow> mat" where
  "set_translation a v = set_entry (set_entry (set_entry a 0 3 (v ! 0)) 1 3 (v ! 1)) 2 3 (v ! 2)"


subsection \<open>N-dimensional arrays and images\<close>

datatype dtype = Int8 | UInt8 | Int16 | UInt16 | Int32 | UInt32 | Int64 | UInt64
  | Float16 | Float32 | Float64

fun is_floating :: "dtype \<Rightarrow> bool" where
  "is_floating Float16 = True"
| "is_floating Float32 = True"
| "is_floating Float64 = True"
| "is_floating _ = False"

text \<open>An array element is its value and, for a zero, whether it is the negative zero
  \<open>-0.0\<close>. The sign bit of an element is set for a negative value and for the negative
  zero.\<close>

type_synonym fl = "real \<times> bool"

definition signbit :: "fl \<Rightarrow> bool" where
  "signbit v = (fst v < 0 \<or> (fst v = 0 \<and> snd v))"

text \<open>An array is its shape, the value of its element at each multi-index, the sign of the
  elements that are zero and its element type.\<close>

record ndarray =
  shape :: "nat list"
  item :: "nat list \<Rightarrow> real"
  neg0 :: "nat list \<Rightarrow> bool"
  dtype :: dtype

definition elem :: "ndarray \<Rightarrow> nat list \<Rightarrow> fl" where
  "elem a idx = (item a idx, neg0 a idx)"

definition valid_index :: "nat list \<Rightarrow> nat list \<Rightarrow> bool" where
  "valid_index shp idx = list_all2 (<) idx shp"

record header =
  zooms :: vec
  data_shape :: "nat list"
  data_dtype :: dtype

record nifti =
  dataobj :: ndarray
  affine :: mat
  header :: header

text \<open>\<open>img.get_fdata()\<close>: the image's values as a float64 array.\<close>

definition get_fdata :: "nifti \<Rightarrow> ndarray" where
  "get_fdata img = (dataobj img)\<lparr>dtype := Float64\<rparr>"

text \<open>\<open>nib.Nifti1Image(data, affine=a, header=h)\<close>: the header is copied and its shape is
  set from the data; its data type is kept, since a header was given.\<close>

definition Nifti1Image :: "ndarray \<Rightarrow> mat \<Rightarrow> header \<Rightarrow> nifti" where
  "Nifti1Image d a h = \<lparr>dataobj = d, affine = a, header = h\<lparr>data_shape := shape d\<rparr>\<rparr>"

subsection \<open>The target affine (lines 9 to 16 of \<open>resample_to_axial\<close>)\<close>

definition base_affine :: "nifti \<Rightarrow> error + mat" where
  "base_affine mag_nii =
     (let voxel_size = zooms (header mag_nii);
          resolution = map real (data_shape (header mag_nii))
      in case np_mul voxel_size resolution of
           Inl e \<Rightarrow> Inl e
         | Inr vr \<Rightarrow>
             (let origin = map (\<lambda>x. x / 2) vr;
                  signs = take 3 (map sgn (np_diag (affine mag_nii)))
              in case np_mul voxel_size signs of
                   Inl e \<Rightarrow> Inl e
                 | Inr dvals \<Rightarrow>
                     (let b0 = np_fill_diagonal (np_eye 4) dvals;
                          b1 = set_entry b0 3 3 1
                      in case np_mul origin (map uminus signs) of
                           Inl e \<Rightarrow> Inl e
                         | Inr tr \<Rightarrow> Inr (set_translation b1 tr))))"

subsection \<open>Element-wise arithmetic with broadcasting\<close>

text \<open>Shapes are aligned at their last axis; two extents are compatible when they are equal
  or one of them is 1. The function works on reversed shapes.\<close>

fun broadcast_rev :: "nat list \<Rightarrow> nat list \<Rightarrow> nat list option" where
  "broadcast_rev [] ys = Some ys"
| "broadcast_rev xs [] = Some xs"
| "broadcast_rev (x # xs) (y # ys) =
     (if x = y \<or> y = 1 then map_option ((#) x) (broadcast_rev xs ys)
      else if x = 1 then map_option ((#) y) (broadcast_rev xs ys)
      else None)"

definition broadcast_shapes :: "nat list \<Rightarrow> nat list \<Rightarrow> nat list option" where
  "broadcast_shapes s t = map_option rev (broadcast_rev (rev s) (rev t))"

text \<open>The index of an operand's element that takes part at index \<open>idx\<close> of the result.\<close>

definition bidx :: "nat list \<Rightarrow> nat list \<Rightarrow> nat list" where
  "bidx shp idx =
     map2 (\<lambda>d i. if d = 1 then 0 else i) shp (drop (length idx - length shp) idx)"

definition np_binop :: "(fl \<Rightarrow> fl \<Rightarrow> fl) \<Rightarrow> ndarray \<Rightarrow> ndarray \<Rightarrow> error + ndarray" where
  "np_binop f a b =
     (case broadcast_shapes (shape a) (shape b) of
        None \<Rightarrow> Inl ShapeMismatchError
      | Some s \<Rightarrow>
          Inr \<lparr>shape = s,
               item = (\<lambda>idx. fst (f (elem a (bidx (shape a) idx)) (elem b (bidx (shape b) idx)))),
               neg0 = (\<lambda>idx. snd (f (elem a (bidx (shape a) idx)) (elem b (bidx (shape b) idx)))),
               dtype = Float64\<rparr>)"

definition np_map :: "(fl \<Rightarrow> fl) \<Rightarrow> ndarray \<Rightarrow> ndarray" where
  "np_map f a =
     a\<lparr>item := (\<lambda>idx. fst (f (elem a idx))), neg0 := (\<lambda>idx. snd (f (elem a idx)))\<rparr>"

text \<open>\<open>np.array(a, dtype=dt)\<close>: every element is converted to \<open>dt\<close>. The conversion of one
  value is NumPy's and is a parameter of the model; a floating-point type keeps the sign of
  the element, an integer type has no negative zero.\<close>

definition np_array :: "(dtype \<Rightarrow> real \<Rightarrow> real) \<Rightarrow> ndarray \<Rightarrow> dtype \<Rightarrow> ndarray" where
  "np_array cast a dt =
     a\<lparr>item := (\<lambda>idx. cast dt (item a idx)),
       neg0 := (\<lambda>idx. is_floating dt \<and> signbit (elem a idx)),
       dtype := dt\<rparr>"

text \<open>\<open>a * b\<close>, \<open>np.cos\<close> and \<open>np.sin\<close> on elements: the sign of a product is the
  exclusive or of the signs, the sine of a zero is that zero, a cosine that is zero is
  positive.\<close>

definition fl_mul :: "fl \<Rightarrow> fl \<Rightarrow> fl" where
  "fl_mul a b = (fst a * fst b, signbit a \<noteq> signbit b)"

definition fl_cos :: "fl \<Rightarrow> fl" where
  "fl_cos a = (cos (fst a), False)"

definition fl_sin :: "fl \<Rightarrow> fl" where
  "fl_sin a = (sin (fst a), fst a = 0 \<and> snd a)"

text \<open>\<open>np.round(x, 0)\<close> rounds to the nearest integer, a tie to the even neighbour.\<close>

definition np_rint :: "real \<Rightarrow> int" where
  "np_rint x =
     (let f = \<lfloor>x\<rfloor>; r = x - of_int f
      in if r < 1 / 2 then f else if 1 / 2 < r then f + 1 else if even f then f else f + 1)"

definition np_round :: "real \<Rightarrow> real" where
  "np_round x = of_int (np_rint x)"

definition np_hypot :: "real \<Rightarrow> real \<Rightarrow> real" where
  "np_hypot x y = sqrt (x\<^sup>2 + y\<^sup>2)"

text \<open>On elements: a hypotenuse is never negative, and rounding keeps the sign.\<close>

definition fl_hypot :: "fl \<Rightarrow> fl \<Rightarrow> fl" where
  "fl_hypot a b = (np_hypot (fst a) (fst b), False)"

definition fl_round :: "fl \<Rightarrow> fl" where
  "fl_round a = (np_round (fst a), signbit a)"

text \<open>\<open>np.arctan2(y, x)\<close>: the angle of the point \<open>(x, y)\<close>. Where \<open>y\<close> is a zero the signs
  decide: the result is that zero when \<open>x\<close> is positive or \<open>+0.0\<close>, and \<open>pi\<close> with the sign
  of \<open>y\<close> when \<open>x\<close> is negative or \<open>-0.0\<close>.\<close>

definition np_arctan2 :: "fl \<Rightarrow> fl \<Rightarrow> fl" where
  "np_arctan2 y x =
     (if fst y = 0 then
        (if signbit x then (if signbit y then (- pi, False) else (pi, False))
         else (0, signbit y))
      else if fst x = 0 then (if 0 < fst y then (pi / 2, False) else (- pi / 2, False))
      else if 0 < fst x then (arctan (fst y / fst x), False)
      else if 0 < fst y then (arctan (fst y / fst x) + pi, False)
      else (arctan (fst y / fst x) - pi, False))"

subsection \<open>The libraries the module calls\<close>

datatype interpolation = Continuous | Linear | Nearest

text \<open>
  \<open>resample_img\<close> is \<open>nilearn.image.resample_img(img, target_affine, target_shape,
  interpolation)\<close>; \<open>cast\<close> is NumPy's conversion of one value to a data type;
  \<open>abspath\<close> is \<open>os.path.abspath\<close> in the current directory; \<open>can_save\<close> tells whether
  \<open>nib.save\<close> can write to a path.
\<close>

record env =
  resample_img :: "nifti \<Rightarrow> mat \<Rightarrow> nat list option \<Rightarrow> interpolation \<Rightarrow> error + nifti"
  cast :: "dtype \<Rightarrow> real \<Rightarrow> real"
  abspath :: "string \<Rightarrow> string"
  can_save :: "string \<Rightarrow> bool"

subsection \<open>Decomposition and recomposition (lines 18 to 26 and 35 to 43)\<close>

definition decompose :: "nifti \<Rightarrow> nifti \<Rightarrow> error + nifti \<times> nifti" where
  "decompose mag_nii pha_nii =
     (let pha = get_fdata pha_nii;
          mag = get_fdata mag_nii
      in case np_binop fl_mul mag (np_map fl_cos pha) of
           Inl e \<Rightarrow> Inl e
         | Inr real_c \<Rightarrow>
             (case np_binop fl_mul mag (np_map fl_sin pha) of
                Inl e \<Rightarrow> Inl e
              | Inr imag_c \<Rightarrow>
                  (let cplx_header = (header mag_nii)\<lparr>data_dtype := Float32\<rparr>
                   in Inr (Nifti1Image real_c (affine pha_nii) cplx_header,
                           Nifti1Image imag_c (affine pha_nii) cplx_header))))"

definition recompose ::
  "(dtype \<Rightarrow> real \<Rightarrow> real) \<Rightarrow> nifti \<Rightarrow> nifti \<Rightarrow> nifti \<Rightarrow> nifti \<Rightarrow> error + nifti \<times> nifti" where
  "recompose cst mag_nii pha_nii real_rot_nii imag_rot_nii =
     (let real_rot = get_fdata real_rot_nii;
          imag_rot = get_fdata imag_rot_nii
      in case np_binop fl_hypot real_rot imag_rot of
           Inl e \<Rightarrow> Inl e
         | Inr h \<Rightarrow>
             (let mag_rot = np_array cst (np_map fl_round h) (data_dtype (header mag_nii))
              in case np_binop np_arctan2 imag_rot real_rot of
                   Inl e \<Rightarrow> Inl e
                 | Inr a \<Rightarrow>
                     (let pha_rot = np_array cst a Float16
                      in Inr (Nifti1Image mag_rot (affine real_rot_nii) (header mag_nii),
                              Nifti1Image pha_rot (affine real_rot_nii) (header pha_nii)))))"

subsection \<open>\<open>resample_to_axial\<close>\<close>

definition resample_mask :: "env \<Rightarrow> nifti option \<Rightarrow> mat \<Rightarrow> error + nifti option" where
  "resample_mask ev mask_nii target =
     (case mask_nii of
        None \<Rightarrow> Inr None
      | Some m \<Rightarrow>
          (case resample_img ev m target None Nearest of
             Inl e \<Rightarrow> Inl e
           | Inr r \<Rightarrow> Inr (Some r)))"

definition resample_to_axial ::
  "env \<Rightarrow> nifti \<Rightarrow> nifti \<Rightarrow> nifti option \<Rightarrow> error + nifti \<times> nifti \<times> nifti option" where
  "resample_to_axial ev mag_nii pha_nii mask_nii =
     (case base_affine mag_nii of
        Inl e \<Rightarrow> Inl e
      | Inr target \<Rightarrow>
     (case decompose mag_nii pha_nii of
        Inl e \<Rightarrow> Inl e
      | Inr (real_nii, imag_nii) \<Rightarrow>
     (case resample_img ev real_nii target None Continuous of
        Inl e \<Rightarrow> Inl e
      | Inr real_rot_nii \<Rightarrow>
     (case resample_img ev imag_nii target None Continuous of
        Inl e \<Rightarrow> Inl e
      | Inr imag_rot_nii \<Rightarrow>
     (case resample_mask ev mask_nii target of
        Inl e \<Rightarrow> Inl e
      | Inr mask_rot_nii \<Rightarrow>
     (case recompose (cast ev) mag_nii pha_nii real_rot_nii imag_rot_nii of
        Inl e \<Rightarrow> Inl e
      | Inr (mag_rot_nii, pha_rot_nii) \<Rightarrow> Inr (mag_rot_nii, pha_rot_nii, mask_rot_nii)))))))"

subsection \<open>The obliquity of an affine (nibabel)\<close>

text \<open>
  Modelled from the spec: \<open>nib.affines.voxel_sizes\<close>, which is nibabel's and not among the
  sources: the voxel spacing of section 3, the Euclidean norms of the columns of the affine's
  upper-left 3 by 3 block.
\<close>

definition voxel_sizes :: "mat \<Rightarrow> vec" where
  "voxel_sizes a = map (\<lambda>j. sqrt ((a ! 0 ! j)\<^sup>2 + (a ! 1 ! j)\<^sup>2 + (a ! 2 ! j)\<^sup>2)) [0, 1, 2]"

text \<open>
  Modelled from the spec: \<open>nib.affines.obliquity\<close>, which is nibabel's and not among the
  sources: the ObliquityAngle of sections 3 and 4.4, one angle per axis, computed from the
  block alone. Each column of the block is divided by its norm, the largest absolute value of
  each row is taken and its arc cosine returned, in radians. When a column of the block is
  zero, NumPy divides zero by zero and every angle is NaN; the model returns \<open>None\<close> then.
\<close>

definition obliquity :: "mat \<Rightarrow> vec option" where
  "obliquity a =
     (let vs = voxel_sizes a
      in if 0 \<in> set vs then None
         else Some (map (\<lambda>i. arccos (max (max \<bar>a ! i ! 0 / vs ! 0\<bar> \<bar>a ! i ! 1 / vs ! 1\<bar>)
                                          \<bar>a ! i ! 2 / vs ! 2\<bar>)) [0, 1, 2]))"

definition rad2deg :: "real \<Rightarrow> real" where
  "rad2deg x = x * 180 / pi"

definition linalg_norm :: "vec \<Rightarrow> real" where
  "linalg_norm v = sqrt (\<Sum>x\<leftarrow>v. x\<^sup>2)"

text \<open>Lines 58 and 59: the norm of the obliquity in degrees; \<open>None\<close> stands for NaN.\<close>

definition obliquity_norm :: "mat \<Rightarrow> real option" where
  "obliquity_norm a = map_option (\<lambda>ob. linalg_norm (map rad2deg ob)) (obliquity a)"

text \<open>Line 60, \<open>if obliquity_threshold and obliquity_norm < obliquity_threshold\<close>: \<open>None\<close>
  and 0 are false in Python, and a comparison with NaN is false.\<close>

definition skip_resampling :: "real option \<Rightarrow> real option \<Rightarrow> bool" where
  "skip_resampling obliquity_threshold onorm =
     (case obliquity_threshold of
        None \<Rightarrow> False
      | Some t \<Rightarrow> t \<noteq> 0 \<and> (case onorm of None \<Rightarrow> False | Some n \<Rightarrow> n < t))"

subsection \<open>Files, standard output and paths\<close>

text \<open>The text of a printed line is abstracted to the kind of the message; the paths in
  it are kept.\<close>

datatype msg = Loading_mag string | Loading_pha string | Loading_mask string
  | No_resampling_needed | Resampling_will_commence
  | Saving_mag string | Saving_pha string | Saving_mask string

text \<open>The file system holds images under their paths, the latest write first. A saved
  image is kept as it was in memory: the conversion of its values to the header's data type
  on disk is not modelled.\<close>

record world =
  files :: "(string \<times> nifti) list"
  stdout :: "msg list"

definition print :: "msg \<Rightarrow> world \<Rightarrow> world" where
  "print m w = w\<lparr>stdout := stdout w @ [m]\<rparr>"

definition nib_load :: "world \<Rightarrow> string \<Rightarrow> error + nifti" where
  "nib_load w p = (case map_of (files w) p of None \<Rightarrow> Inl LoadError | Some img \<Rightarrow> Inr img)"

definition nib_save :: "env \<Rightarrow> nifti \<Rightarrow> string \<Rightarrow> world \<Rightarrow> error + world" where
  "nib_save ev img p w =
     (if can_save ev p then Inr (w\<lparr>files := (p, img) # files w\<rparr>) else Inl SaveError)"

text \<open>\<open>os.path.split(p)[1]\<close>, \<open>s.split('.')[0]\<close> and \<open>".".join(s.split('.')[1:])\<close>.\<close>

definition basename :: "string \<Rightarrow> string" where
  "basename p = rev (takeWhile (\<lambda>c. c \<noteq> CHR ''/'') (rev p))"

definition before_dot :: "string \<Rightarrow> string" where
  "before_dot s = takeWhile (\<lambda>c. c \<noteq> CHR ''.'') s"

definition after_dot :: "string \<Rightarrow> string" where
  "after_dot s = drop 1 (dropWhile (\<lambda>c. c \<noteq> CHR ''.'') s)"

text \<open>The name of an output file: the stem of the input's base name, \<open>_resampled.\<close> and
  what follows the first dot of the input path as given.\<close>

definition resampled_fname :: "env \<Rightarrow> string \<Rightarrow> string" where
  "resampled_fname ev f = abspath ev (before_dot (basename f) @ ''_resampled.'' @ after_dot f)"

subsection \<open>\<open>resample_files\<close>\<close>

text \<open>Lines 53 to 55: the mask is loaded when \<open>mask_file\<close> is neither \<open>None\<close> nor empty.\<close>

definition load_mask :: "world \<Rightarrow> string option \<Rightarrow> world \<times> (error + nifti option)" where
  "load_mask w mask_file =
     (case mask_file of
        None \<Rightarrow> (w, Inr None)
      | Some mf \<Rightarrow>
          if mf = [] then (w, Inr None)
          else (let w' = print (Loading_mask (basename mf)) w
                in case nib_load w' mf of
                     Inl e \<Rightarrow> (w', Inl e)
                   | Inr m \<Rightarrow> (w', Inr (Some m))))"

text \<open>Lines 68 to 88: the results are saved and their paths returned.\<close>

definition save_results ::
  "env \<Rightarrow> world \<Rightarrow> string \<Rightarrow> string \<Rightarrow> string option \<Rightarrow> nifti \<times> nifti \<times> nifti option
     \<Rightarrow> world \<times> (error + string \<times> string \<times> string option)" where
  "save_results ev w mag_file pha_file mask_file rot =
     (case rot of (mag_rot_nii, pha_rot_nii, mask_rot_nii) \<Rightarrow>
     (let mag_resampled_fname = resampled_fname ev mag_file;
          pha_resampled_fname = resampled_fname ev pha_file;
          w1 = print (Saving_mag mag_resampled_fname) w
      in case nib_save ev mag_rot_nii mag_resampled_fname w1 of
           Inl e \<Rightarrow> (w1, Inl e)
         | Inr w2 \<Rightarrow>
     (let w3 = print (Saving_pha pha_resampled_fname) w2
      in case nib_save ev pha_rot_nii pha_resampled_fname w3 of
           Inl e \<Rightarrow> (w3, Inl e)
         | Inr w4 \<Rightarrow>
     (case mask_rot_nii of
        None \<Rightarrow> (w4, Inr (mag_resampled_fname, pha_resampled_fname, Some ''placeholder''))
      | Some mask_rot \<Rightarrow>
     (case mask_file of
        None \<Rightarrow> (w4, Inl TypeError)
      | Some mf \<Rightarrow>
     (let mask_resampled_fname = resampled_fname ev mf;
          w5 = print (Saving_mask mask_resampled_fname) w4
      in case nib_save ev mask_rot mask_resampled_fname w5 of
           Inl e \<Rightarrow> (w5, Inl e)
         | Inr w6 \<Rightarrow>
             (w6, Inr (mag_resampled_fname, pha_resampled_fname,
                       Some mask_resampled_fname))))))))"

definition resample_files ::
  "env \<Rightarrow> world \<Rightarrow> string \<Rightarrow> string \<Rightarrow> string option \<Rightarrow> real option
     \<Rightarrow> world \<times> (error + string \<times> string \<times> string option)" where
  "resample_files ev w mag_file pha_file mask_file obliquity_threshold =
     (let w1 = print (Loading_mag (basename mag_file)) w
      in case nib_load w1 mag_file of
           Inl e \<Rightarrow> (w1, Inl e)
         | Inr mag_nii \<Rightarrow>
     (let w2 = print (Loading_pha (basename pha_file)) w1
      in case nib_load w2 pha_file of
           Inl e \<Rightarrow> (w2, Inl e)
         | Inr pha_nii \<Rightarrow>
     (case load_mask w2 mask_file of
        (w3, Inl e) \<Rightarrow> (w3, Inl e)
      | (w3, Inr mask_nii) \<Rightarrow>
          if skip_resampling obliquity_threshold (obliquity_norm (affine mag_nii))
          then (print No_resampling_needed w3, Inr (mag_file, pha_file, mask_file))
          else
     (let w4 = print Resampling_will_commence w3
      in case resample_to_axial ev mag_nii pha_nii mask_nii of
           Inl e \<Rightarrow> (w4, Inl e)
         | Inr rot \<Rightarrow> save_results ev w4 mag_file pha_file mask_file rot))))"

subsection \<open>\<open>resample_like\<close>\<close>

definition resample_like ::
  "env \<Rightarrow> world \<Rightarrow> string \<Rightarrow> string \<Rightarrow> interpolation \<Rightarrow> world \<times> (error + string)" where
  "resample_like ev w in_file in_like interpolation =
     (case nib_load w in_file of
        Inl e \<Rightarrow> (w, Inl e)
      | Inr in_nii \<Rightarrow>
     (case nib_load w in_like of
        Inl e \<Rightarrow> (w, Inl e)
      | Inr in_like_nii \<Rightarrow>
          if affine in_nii = affine in_like_nii then (w, Inr in_file)
          else
     (case resample_img ev in_nii (affine in_like_nii)
             (Some (data_shape (header in_like_nii))) interpolation of
        Inl e \<Rightarrow> (w, Inl e)
      | Inr in_nii_resampled \<Rightarrow>
     (let in_resampled_fname = resampled_fname ev in_file
      in case nib_save ev in_nii_resampled in_resampled_fname w of
           Inl e \<Rightarrow> (w, Inl e)
         | Inr w' \<Rightarrow> (w', Inr in_resampled_fname)))))"

subsection \<open>The resampler\<close>

text \<open>
  Modelled from the spec: \<open>nilearn.image.resample_img\<close>, the Resampler of section 4.3 of the
  specification, whose code is not among the sources. The output lies on the grid of the
  target affine; its extent is the target shape, or is determined from the source's extent
  when no shape is given (\<open>cover\<close>). The value of an output voxel is read at the source
  coordinates of its physical position: with nearest-neighbour interpolation it is the value
  of the single closest source voxel, with the other modes it is interpolated (\<open>spline\<close>),
  and outside the source's support it is zero. An affine that cannot be inverted, a source
  of fewer than three axes or a target shape that is not three-dimensional makes the
  resampler fail. Axes after the third are carried along.
\<close>

record sampler =
  cover :: "nat list \<Rightarrow> mat \<Rightarrow> mat \<Rightarrow> nat \<times> nat \<times> nat"
  spline :: "ndarray \<Rightarrow> vec \<Rightarrow> nat list \<Rightarrow> real"

definition det3 :: "mat \<Rightarrow> real" where
  "det3 m =
     m ! 0 ! 0 * (m ! 1 ! 1 * m ! 2 ! 2 - m ! 1 ! 2 * m ! 2 ! 1)
     - m ! 0 ! 1 * (m ! 1 ! 0 * m ! 2 ! 2 - m ! 1 ! 2 * m ! 2 ! 0)
     + m ! 0 ! 2 * (m ! 1 ! 0 * m ! 2 ! 1 - m ! 1 ! 1 * m ! 2 ! 0)"

text \<open>The physical position of a voxel, and the voxel coordinates of a physical position
  (by the adjugate of the 3 by 3 block).\<close>

definition apply_affine :: "mat \<Rightarrow> vec \<Rightarrow> vec" where
  "apply_affine a v =
     map (\<lambda>i. a ! i ! 0 * v ! 0 + a ! i ! 1 * v ! 1 + a ! i ! 2 * v ! 2 + a ! i ! 3) [0, 1, 2]"

definition unapply_affine :: "mat \<Rightarrow> vec \<Rightarrow> vec" where
  "unapply_affine m p =
     (let x = p ! 0 - m ! 0 ! 3; y = p ! 1 - m ! 1 ! 3; z = p ! 2 - m ! 2 ! 3; d = det3 m
      in [((m ! 1 ! 1 * m ! 2 ! 2 - m ! 1 ! 2 * m ! 2 ! 1) * x
           + (m ! 0 ! 2 * m ! 2 ! 1 - m ! 0 ! 1 * m ! 2 ! 2) * y
           + (m ! 0 ! 1 * m ! 1 ! 2 - m ! 0 ! 2 * m ! 1 ! 1) * z) / d,
          ((m ! 1 ! 2 * m ! 2 ! 0 - m ! 1 ! 0 * m ! 2 ! 2) * x
           + (m ! 0 ! 0 * m ! 2 ! 2 - m ! 0 ! 2 * m ! 2 ! 0) * y
           + (m ! 0 ! 2 * m ! 1 ! 0 - m ! 0 ! 0 * m ! 1 ! 2) * z) / d,
          ((m ! 1 ! 0 * m ! 2 ! 1 - m ! 1 ! 1 * m ! 2 ! 0) * x
           + (m ! 0 ! 1 * m ! 2 ! 0 - m ! 0 ! 0 * m ! 2 ! 1) * y
           + (m ! 0 ! 0 * m ! 1 ! 1 - m ! 0 ! 1 * m ! 1 ! 0) * z) / d])"

definition source_coords :: "mat \<Rightarrow> mat \<Rightarrow> nat list \<Rightarrow> vec" where
  "source_coords src_affine target_affine idx =
     unapply_affine src_affine (apply_affine target_affine (map real idx))"

text \<open>
  Modelled from the spec: the source's support, as voxel indices inside the array.
\<close>

definition in_support :: "nat list \<Rightarrow> int list \<Rightarrow> bool" where
  "in_support shp j = list_all2 (\<lambda>k n. 0 \<le> k \<and> k < int n) j (take 3 shp)"

text \<open>
  Modelled from the spec: nearest-neighbour interpolation selects the value of the single
  closest source voxel; outside the source's support the value is zero.
\<close>

definition sample_nearest :: "ndarray \<Rightarrow> vec \<Rightarrow> nat list \<Rightarrow> real" where
  "sample_nearest src c rest =
     (let j = map np_rint c
      in if in_support (shape src) j then item src (map nat j @ rest) else 0)"

text \<open>
  Modelled from the spec: the sign of a zero is that of the selected source voxel; the fill
  value is the positive zero.
\<close>

definition nearest_neg0 :: "ndarray \<Rightarrow> vec \<Rightarrow> nat list \<Rightarrow> bool" where
  "nearest_neg0 src c rest =
     (let j = map np_rint c
      in in_support (shape src) j \<and> neg0 src (map nat j @ rest))"

text \<open>
  Modelled from the spec: continuous interpolation weighs the neighbouring source voxels
  (\<open>spline\<close>); outside the source's support the value is zero.
\<close>

definition sample_smooth :: "sampler \<Rightarrow> ndarray \<Rightarrow> vec \<Rightarrow> nat list \<Rightarrow> real" where
  "sample_smooth sm src c rest =
     (if list_all2 (\<lambda>x n. 0 \<le> x \<and> x \<le> real n - 1) c (take 3 (shape src))
      then spline sm src c rest else 0)"

text \<open>
  Modelled from the spec: \<open>nilearn.image.resample_img\<close> (section 4.3), which is not among the
  sources. The output has the target affine and the target shape, or a shape that covers the
  source when none is given.
\<close>

definition resample_onto ::
  "sampler \<Rightarrow> nifti \<Rightarrow> mat \<Rightarrow> nat list option \<Rightarrow> interpolation \<Rightarrow> error + nifti" where
  "resample_onto sm img target_affine target_shape interpolation =
     (let src = dataobj img
      in if length (shape src) < 3 \<or> det3 (affine img) = 0 \<or> det3 target_affine = 0
         then Inl InterpolationError
         else
           (case (case target_shape of
                    None \<Rightarrow>
                      (case cover sm (shape src) (affine img) target_affine of
                         (nx, ny, nz) \<Rightarrow> Some [nx, ny, nz])
                  | Some s \<Rightarrow> if length s = 3 then Some s else None) of
              None \<Rightarrow> Inl InterpolationError
            | Some shp \<Rightarrow>
                Inr \<lparr>dataobj =
                       \<lparr>shape = shp @ drop 3 (shape src),
                        item = (\<lambda>idx.
                          let c = source_coords (affine img) target_affine (take 3 idx)
                          in case interpolation of
                               Nearest \<Rightarrow> sample_nearest src c (drop 3 idx)
                             | _ \<Rightarrow> sample_smooth sm src c (drop 3 idx)),
                        neg0 = (\<lambda>idx.
                          let c = source_coords (affine img) target_affine (take 3 idx)
                          in case interpolation of
                               Nearest \<Rightarrow> nearest_neg0 src c (drop 3 idx)
                             | _ \<Rightarrow> False),
                        dtype = dtype src\<rparr>,
                     affine = target_affine,
                     header = (header img)\<lparr>data_shape := shp @ drop 3 (shape src)\<rparr>\<rparr>))"

text \<open>
  Modelled from the spec: the output shape that covers the transformed source extent. The
  corners of the source array are carried to voxel coordinates of the target grid; each
  extent reaches from index 0 to the largest coordinate, rounded up. The library refuses a
  target grid on which the whole source lies at negative indices along some axis; the extent
  is then 1 here, and no volume of this development comes there with \<open>bounding_cover\<close>.
\<close>

definition corners :: "nat list \<Rightarrow> vec list" where
  "corners shp =
     [[x, y, z]. x \<leftarrow> [0, real (shp ! 0) - 1], y \<leftarrow> [0, real (shp ! 1) - 1],
                 z \<leftarrow> [0, real (shp ! 2) - 1]]"

definition bounding_cover :: "nat list \<Rightarrow> mat \<Rightarrow> mat \<Rightarrow> nat \<times> nat \<times> nat" where
  "bounding_cover shp src_affine target_affine =
     (let pts = map (\<lambda>c. unapply_affine target_affine (apply_affine src_affine c)) (corners shp);
          extent = (\<lambda>k. nat \<lceil>Max (set (map (\<lambda>p. p ! k) pts))\<rceil> + 1)
      in (extent 0, extent 1, extent 2))"

text \<open>The labels of a mask: the values at its valid indices.\<close>

definition labels :: "ndarray \<Rightarrow> real set" where
  "labels a = {item a idx | idx. valid_index (shape a) idx}"

subsection \<open>Example volumes\<close>

definition diag2 :: mat where
  "diag2 = [[2, 0, 0, 0], [0, 2, 0, 0], [0, 0, 2, 0], [0, 0, 0, 1]]"


definition const_array :: "nat list \<Rightarrow> real \<Rightarrow> dtype \<Rightarrow> ndarray" where
  "const_array shp v dt =
     \<lparr>shape = shp, item = (\<lambda>idx. v), neg0 = (\<lambda>idx. False), dtype = dt\<rparr>"

definition volume :: "nat list \<Rightarrow> real \<Rightarrow> dtype \<Rightarrow> mat \<Rightarrow> vec \<Rightarrow> nifti" where
  "volume shp v dt a zs =
     \<lparr>dataobj = const_array shp v dt, affine = a,
      header = \<lparr>zooms = zs, data_shape = shp, data_dtype = dt\<rparr>\<rparr>"

text \<open>A magnitude volume with a zero voxel and a negative voxel.\<close>

definition probe_mag :: nifti where
  "probe_mag =
     \<lparr>dataobj = \<lparr>shape = [2, 2, 2],
                  item = (\<lambda>idx. if idx = [0, 0, 0] then 0 else if idx = [1, 0, 0] then - 5 else 100),
                  neg0 = (\<lambda>idx. False),
                  dtype = Int16\<rparr>,
      affine = diag2,
      header = \<lparr>zooms = [2, 2, 2], data_shape = [2, 2, 2], data_dtype = Int16\<rparr>\<rparr>"

subsection \<open>What a call of \<open>resample_files\<close> shows\<close>

text \<open>The lines a call printed, given the world before and after it.\<close>

definition printed :: "world \<Rightarrow> world \<Rightarrow> msg list" where
  "printed w w' = drop (length (stdout w)) (stdout w')"

text \<open>The mask file, when one is given, can be loaded.\<close>

definition mask_loads :: "world \<Rightarrow> string option \<Rightarrow> bool" where
  "mask_loads w mask_file =
     (case mask_file of
        None \<Rightarrow> True
      | Some mf \<Rightarrow> mf = [] \<or> (case nib_load w mf of Inl e \<Rightarrow> False | Inr m \<Rightarrow> True))"

text \<open>The call skipped the resampling: it returned the paths it was given, wrote no file
  and printed that no resampling was needed. The call went on to resample: it printed that
  resampling will commence.\<close>

definition skipped ::
  "world \<Rightarrow> string \<times> string \<times> string option
     \<Rightarrow> world \<times> (error + string \<times> string \<times> string option) \<Rightarrow> bool" where
  "skipped w orig r =
     (snd r = Inr orig \<and> files (fst r) = files w
      \<and> No_resampling_needed \<in> set (printed w (fst r))
      \<and> Resampling_will_commence \<notin> set (printed w (fst r)))"

definition commenced ::
  "world \<Rightarrow> world \<times> (error + string \<times> string \<times> string option) \<Rightarrow> bool" where
  "commenced w r =
     (Resampling_will_commence \<in> set (printed w (fst r))
      \<and> No_resampling_needed \<notin> set (printed w (fst r)))"

subsection \<open>Example libraries and file systems\<close>

definition toy_sampler :: sampler where
  "toy_sampler =
     \<lparr>cover = (\<lambda>shp a t. (shp ! 0, shp ! 1, shp ! 2)),
      spline = (\<lambda>src c rest. sample_nearest src c rest)\<rparr>"

definition example_env :: env where
  "example_env =
     \<lparr>resample_img = resample_onto toy_sampler, cast = (\<lambda>dt x. x),
      abspath = (\<lambda>p. ''/work/'' @ p), can_save = (\<lambda>p. True)\<rparr>"

text \<open>A resampling library that returns the image it is given.\<close>

definition identity_env :: env where
  "identity_env =
     \<lparr>resample_img = (\<lambda>img a s i. Inr img), cast = (\<lambda>dt x. x),
      abspath = (\<lambda>p. ''/work/'' @ p), can_save = (\<lambda>p. True)\<rparr>"

definition example_world :: world where
  "example_world =
     \<lparr>files = [(''/data/mag.nii.gz'', volume [64, 64, 64] 100 Int16 diag2 [2, 2, 2]),
               (''/data/phase.nii.gz'', volume [64, 64, 64] (1 / 2) Float32 diag2 [2, 2, 2])],
      stdout = []\<rparr>"

definition other_world :: world where
  "other_world =
     \<lparr>files = [(''m.nii'', volume [2, 2, 2] 7 UInt8 diag2 [2, 2, 2]),
               (''p.nii'', volume [2, 2, 2] 0 Float64 diag2 [2, 2, 2])],
      stdout = [Saving_mag ''earlier.nii'']\<rparr>"

definition shifted_affine :: mat where
  "shifted_affine = [[2, 0, 0, 2], [0, 2, 0, 0], [0, 0, 2, 0], [0, 0, 0, 1]]"

definition like_world :: world where
  "like_world =
     \<lparr>files = [(''/data/src.nii'', volume [1, 1, 1] 1 UInt8 diag2 [2, 2, 2]),
               (''/data/ref.nii'', volume [2, 1, 1] 0 Int16 shifted_affine [2, 2, 2])],
      stdout = []\<rparr>"

text \<open>An oblique acquisition: the grid is turned about the third axis (cosine 3/5, sine 4/5)
  with voxels of 5 mm; and a library whose output covers the source.\<close>

definition rotated_affine :: mat where
  "rotated_affine = [[3, - 4, 0, 0], [4, 3, 0, 0], [0, 0, 5, - 5], [0, 0, 0, 1]]"

definition box_sampler :: sampler where
  "box_sampler =
     \<lparr>cover = bounding_cover, spline = (\<lambda>src c rest. sample_nearest src c rest)\<rparr>"

definition box_env :: env where
  "box_env =
     \<lparr>resample_img = resample_onto box_sampler, cast = (\<lambda>dt x. x),
      abspath = (\<lambda>p. ''/work/'' @ p), can_save = (\<lambda>p. True)\<rparr>"

text \<open>The affine of a sagittal acquisition: every diagonal entry of its block is 0.\<close>

definition sagittal_affine :: mat where
  "sagittal_affine = [[0, 0, 2, - 2], [- 2, 0, 0, 2], [0, 2, 0, - 2], [0, 0, 0, 1]]"

section \<open>Properties\<close>

subsection \<open>Lists of known length\<close>

lemma length_3_iff: "length xs = 3 \<longleftrightarrow> (\<exists>a b c. xs = [a, b, c])"
  by (auto simp: length_Suc_conv eval_nat_numeral)


lemma upt_0_4: "[0..<4] = [0, 1, 2, 3]"
  by (simp add: upt_rec)

lemma all_less_3: "(\<forall>i<3. P i) \<longleftrightarrow> P 0 \<and> P (Suc 0) \<and> P (Suc (Suc 0))"
  by (auto simp: less_Suc_eq eval_nat_numeral)

subsection \<open>The target affine\<close>



subsection \<open>Broadcasting and rounding\<close>

lemma broadcast_rev_same: "broadcast_rev xs xs = Some xs"
  by (induction xs) auto

lemma broadcast_shapes_same: "broadcast_shapes s s = Some s"
  by (simp add: broadcast_shapes_def broadcast_rev_same)

lemma broadcast_rev_commute: "broadcast_rev xs ys = broadcast_rev ys xs"
proof (induction xs ys rule: broadcast_rev.induct)
  case (1 ys)
  then show ?case by (cases ys) simp_all
next
  case (2 x xs)
  then show ?case by simp
next
  case (3 x xs y ys)
  then show ?case by auto
qed

lemma broadcast_shapes_commute: "broadcast_shapes s t = broadcast_shapes t s"
  by (simp add: broadcast_shapes_def broadcast_rev_commute [of "rev s"])

lemma bidx_valid: "valid_index shp idx \<Longrightarrow> bidx shp idx = idx"
proof -
  assume v: "valid_index shp idx"
  then have len: "length idx = length shp"
    by (simp add: valid_index_def list_all2_lengthD)
  have "map2 (\<lambda>d i. if d = 1 then 0 else i) shp idx = idx"
  proof (rule nth_equalityI)
    show "length (map2 (\<lambda>d i. if d = 1 then 0 else i) shp idx) = length idx"
      using len by simp
  next
    fix i assume "i < length (map2 (\<lambda>d i. if d = 1 then 0 else i) shp idx)"
    then have i: "i < length idx" "i < length shp" using len by simp_all
    then have "idx ! i < shp ! i"
      using v by (simp add: valid_index_def list_all2_nthD)
    then show "map2 (\<lambda>d i. if d = 1 then 0 else i) shp idx ! i = idx ! i"
      using i by auto
  qed
  then show ?thesis using len by (simp add: bidx_def)
qed

lemma np_rint_nearest: "\<bar>real_of_int (np_rint x) - x\<bar> \<le> 1 / 2"
proof -
  have "of_int \<lfloor>x\<rfloor> \<le> x" "x < of_int \<lfloor>x\<rfloor> + 1" by linarith+
  then show ?thesis
    by (auto simp: np_rint_def Let_def)
qed

lemma elem_simps [simp]: "fst (elem a idx) = item a idx" "snd (elem a idx) = neg0 a idx"
  by (simp_all add: elem_def)

lemma fl_values [simp]:
  "fst (fl_mul a b) = fst a * fst b"
  "fst (fl_cos a) = cos (fst a)"
  "fst (fl_sin a) = sin (fst a)"
  "fst (fl_hypot a b) = np_hypot (fst a) (fst b)"
  "fst (fl_round a) = np_round (fst a)"
  by (simp_all add: fl_mul_def fl_cos_def fl_sin_def fl_hypot_def fl_round_def)

subsection \<open>Decomposition\<close>



subsection \<open>The angle of a point\<close>

lemma sqrt_one_plus_ratio:
  assumes "x \<noteq> 0"
  shows "sqrt (1 + (y / x)\<^sup>2) = sqrt (x\<^sup>2 + y\<^sup>2) / \<bar>x\<bar>"
proof -
  have "1 + (y / x)\<^sup>2 = (x\<^sup>2 + y\<^sup>2) / x\<^sup>2"
    using assms by (simp add: field_simps power2_eq_square)
  then show ?thesis
    by (simp add: real_sqrt_divide)
qed

lemma np_arctan2_cos:
  assumes "fst x \<noteq> 0 \<or> fst y \<noteq> 0"
  shows "cos (fst (np_arctan2 y x)) = fst x / sqrt ((fst x)\<^sup>2 + (fst y)\<^sup>2)"
proof -
  consider "fst y = 0" "fst x < 0" | "fst y = 0" "0 < fst x" | "fst y \<noteq> 0" "fst x = 0"
    | "fst y \<noteq> 0" "0 < fst x" | "fst y \<noteq> 0" "fst x < 0"
    using assms by linarith
  then show ?thesis
  proof cases
    case 1
    then show ?thesis by (simp add: np_arctan2_def signbit_def)
  next
    case 2
    then show ?thesis by (simp add: np_arctan2_def signbit_def)
  next
    case 3
    then show ?thesis by (simp add: np_arctan2_def)
  next
    case 4
    then show ?thesis by (simp add: np_arctan2_def cos_arctan sqrt_one_plus_ratio)
  next
    case 5
    then show ?thesis by (simp add: np_arctan2_def cos_arctan sqrt_one_plus_ratio)
  qed
qed

lemma np_arctan2_sin:
  assumes "fst x \<noteq> 0 \<or> fst y \<noteq> 0"
  shows "sin (fst (np_arctan2 y x)) = fst y / sqrt ((fst x)\<^sup>2 + (fst y)\<^sup>2)"
proof -
  consider "fst y = 0" "fst x < 0" | "fst y = 0" "0 < fst x" | "fst y \<noteq> 0" "fst x = 0"
    | "fst y \<noteq> 0" "0 < fst x" | "fst y \<noteq> 0" "fst x < 0"
    using assms by linarith
  then show ?thesis
  proof cases
    case 1
    then show ?thesis by (simp add: np_arctan2_def signbit_def)
  next
    case 2
    then show ?thesis by (simp add: np_arctan2_def signbit_def)
  next
    case 3
    then show ?thesis by (simp add: np_arctan2_def)
  next
    case 4
    then show ?thesis by (simp add: np_arctan2_def sin_arctan sqrt_one_plus_ratio)
  next
    case 5
    then show ?thesis by (simp add: np_arctan2_def sin_arctan sqrt_one_plus_ratio)
  qed
qed

text \<open>The angle lies in the closed interval from \<open>-pi\<close> to \<open>pi\<close>; it is \<open>-pi\<close> only for
  a negative zero \<open>y\<close> and an \<open>x\<close> with the sign bit set.\<close>

lemma np_arctan2_range:
  "- pi \<le> fst (np_arctan2 y x) \<and> fst (np_arctan2 y x) \<le> pi
   \<and> (\<not> (fst y = 0 \<and> signbit y \<and> signbit x) \<longrightarrow> - pi < fst (np_arctan2 y x))"
proof -
  have b: "- (pi / 2) < arctan (fst y / fst x)" "arctan (fst y / fst x) < pi / 2"
    using arctan_bounded [of "fst y / fst x"] by blast+
  have p: "0 < pi" by simp
  consider "fst y = 0" | "fst y \<noteq> 0" "fst x = 0" "0 < fst y" | "fst y \<noteq> 0" "fst x = 0" "fst y < 0"
    | "fst y \<noteq> 0" "0 < fst x"
    | "0 < fst y" "fst x < 0" | "fst y < 0" "fst x < 0"
    by linarith
  then show ?thesis
  proof cases
    case 1
    then have "fst (np_arctan2 y x)
        = (if signbit x then (if signbit y then - pi else pi) else 0)"
      by (simp add: np_arctan2_def)
    with 1 p show ?thesis by auto
  next
    case 2
    then have "fst (np_arctan2 y x) = pi / 2"
      by (simp add: np_arctan2_def)
    then have "- pi < fst (np_arctan2 y x)" "fst (np_arctan2 y x) \<le> pi"
      using p by linarith+
    then show ?thesis by simp
  next
    case 3
    then have "fst (np_arctan2 y x) = - pi / 2"
      by (simp add: np_arctan2_def)
    then have "- pi < fst (np_arctan2 y x)" "fst (np_arctan2 y x) \<le> pi"
      using p by linarith+
    then show ?thesis by simp
  next
    case 4
    then have "fst (np_arctan2 y x) = arctan (fst y / fst x)" by (simp add: np_arctan2_def)
    then have "- pi < fst (np_arctan2 y x)" "fst (np_arctan2 y x) \<le> pi"
      using b p by linarith+
    then show ?thesis by simp
  next
    case 5
    then have "fst y / fst x \<le> 0" by (simp add: divide_nonneg_neg)
    then have "arctan (fst y / fst x) \<le> 0" by (simp add: arctan_le_zero_iff)
    moreover from 5 have "fst (np_arctan2 y x) = arctan (fst y / fst x) + pi"
      by (simp add: np_arctan2_def)
    ultimately have "- pi < fst (np_arctan2 y x)" "fst (np_arctan2 y x) \<le> pi"
      using b p by linarith+
    then show ?thesis by simp
  next
    case 6
    then have "0 < fst y / fst x" by (simp add: divide_neg_neg)
    then have "0 < arctan (fst y / fst x)" by simp
    moreover from 6 have "fst (np_arctan2 y x) = arctan (fst y / fst x) - pi"
      by (simp add: np_arctan2_def)
    ultimately have "- pi < fst (np_arctan2 y x)" "fst (np_arctan2 y x) \<le> pi"
      using b p by linarith+
    then show ?thesis by simp
  qed
qed

text \<open>On the zeros that lines 21 and 22 produce: \<open>arctan2(-0.0, -5.0) = -pi\<close>,
  \<open>arctan2(0.0, -5.0) = pi\<close>, \<open>arctan2(-0.0, -0.0) = -pi\<close>, \<open>arctan2(0.0, -0.0) = pi\<close>
  and \<open>arctan2(-0.0, 0.0) = -0.0\<close>.\<close>

lemma np_arctan2_signed_zeros:
  "np_arctan2 (0, True) (- 5, False) = (- pi, False)"
  "np_arctan2 (0, False) (- 5, False) = (pi, False)"
  "np_arctan2 (0, True) (0, True) = (- pi, False)"
  "np_arctan2 (0, False) (0, True) = (pi, False)"
  "np_arctan2 (0, True) (0, False) = (0, True)"
  by (simp_all add: np_arctan2_def signbit_def)

lemma principal_unique:
  assumes "t = p + 2 * pi * real_of_int n" "- pi < t" "t \<le> pi" "- pi < p" "p \<le> pi"
  shows "t = p"
proof -
  have p: "0 < pi" by simp
  have b: "2 * pi * real_of_int n < 2 * pi" "- (2 * pi) < 2 * pi * real_of_int n"
    using assms by linarith+
  have "n < 1"
  proof (rule ccontr)
    assume "\<not> n < 1"
    then have "1 \<le> real_of_int n" by simp
    then have "2 * pi * 1 \<le> 2 * pi * real_of_int n"
      using p by (intro mult_left_mono) simp_all
    with b(1) show False by simp
  qed
  moreover have "- 1 < n"
  proof (rule ccontr)
    assume "\<not> - 1 < n"
    then have "real_of_int n \<le> - 1" by simp
    then have "2 * pi * real_of_int n \<le> 2 * pi * (- 1)"
      using p by (intro mult_left_mono) simp_all
    with b(2) show False by simp
  qed
  ultimately have "n = 0" by linarith
  then show ?thesis using assms(1) by simp
qed

text \<open>The two channels of a voxel, as lines 21 and 22 compute them.\<close>

lemma np_hypot_polar: "np_hypot (r * cos p) (r * sin p) = \<bar>r\<bar>"
proof -
  have "(r * cos p)\<^sup>2 + (r * sin p)\<^sup>2 = r\<^sup>2 * ((cos p)\<^sup>2 + (sin p)\<^sup>2)"
    by (simp only: power_mult_distrib distrib_left)
  also have "\<dots> = r\<^sup>2" by simp
  finally show ?thesis by (simp add: np_hypot_def)
qed

lemma signbit_fl_mul_zero:
  "fst a * fst b = 0 \<Longrightarrow> signbit (fl_mul a b) = (signbit a \<noteq> signbit b)"
proof -
  assume "fst a * fst b = 0"
  then have "fl_mul a b = (0, signbit a \<noteq> signbit b)" by (simp add: fl_mul_def)
  then show ?thesis by (simp add: signbit_def [of "(0, s)" for s])
qed

lemma signbit_fl_cos: "signbit (fl_cos a) = (cos (fst a) < 0)"
  by (simp add: fl_cos_def signbit_def)

lemma signbit_positive: "0 < fst a \<Longrightarrow> \<not> signbit a"
  by (simp add: signbit_def)

lemma channels_positive:
  assumes "0 < fst m"
  shows "\<exists>n::int. fst (np_arctan2 (fl_mul m (fl_sin ph)) (fl_mul m (fl_cos ph)))
           = fst ph + 2 * pi * real_of_int n"
    and "- pi < fst (np_arctan2 (fl_mul m (fl_sin ph)) (fl_mul m (fl_cos ph)))"
proof -
  let ?y = "fl_mul m (fl_sin ph)" and ?x = "fl_mul m (fl_cos ph)"
  have h: "sqrt ((fst m * cos (fst ph))\<^sup>2 + (fst m * sin (fst ph))\<^sup>2) = fst m"
    using np_hypot_polar [of "fst m" "fst ph"] assms unfolding np_hypot_def by simp
  have v: "fst ?x = fst m * cos (fst ph)" "fst ?y = fst m * sin (fst ph)"
    by simp_all
  have nz: "fst ?x \<noteq> 0 \<or> fst ?y \<noteq> 0"
  proof (rule ccontr)
    assume "\<not> ?thesis"
    then have "cos (fst ph) = 0" "sin (fst ph) = 0" using assms by simp_all
    then show False using sin_cos_squared_add [of "fst ph"] by simp
  qed
  have "cos (fst (np_arctan2 ?y ?x)) = cos (fst ph)" "sin (fst (np_arctan2 ?y ?x)) = sin (fst ph)"
    unfolding np_arctan2_cos [OF nz] np_arctan2_sin [OF nz] v h using assms by simp_all
  then show "\<exists>n::int. fst (np_arctan2 ?y ?x) = fst ph + 2 * pi * real_of_int n"
    using sin_cos_eq_iff [of "fst (np_arctan2 ?y ?x)" "fst ph"] by blast
  have "\<not> (fst ?y = 0 \<and> signbit ?y \<and> signbit ?x)"
  proof
    assume a: "fst ?y = 0 \<and> signbit ?y \<and> signbit ?x"
    then have s0: "sin (fst ph) = 0" using assms by simp
    then have "signbit (fl_mul m (fl_sin ph)) = (signbit m \<noteq> signbit (fl_sin ph))"
      by (intro signbit_fl_mul_zero) simp
    with a signbit_positive [OF assms] have "signbit (fl_sin ph)" by simp
    with s0 have z: "fst ph = 0" by (simp add: fl_sin_def signbit_def)
    then have "fst (fl_mul m (fl_cos ph)) = fst m" by simp
    then have "\<not> signbit (fl_mul m (fl_cos ph))" using assms by (simp add: signbit_def)
    with a show False by simp
  qed
  then show "- pi < fst (np_arctan2 ?y ?x)"
    using np_arctan2_range [of ?y ?x] by blast
qed

text \<open>A voxel of magnitude zero: both channels are zeros, and only their signs remain.\<close>

lemma channels_zero:
  assumes "fst m = 0"
  shows "fst (np_arctan2 (fl_mul m (fl_sin ph)) (fl_mul m (fl_cos ph)))
     = (if signbit m \<noteq> (cos (fst ph) < 0)
        then (if signbit m \<noteq> signbit (fl_sin ph) then - pi else pi)
        else 0)"
  using assms by (simp add: np_arctan2_def signbit_fl_mul_zero signbit_fl_cos)

lemma channels_positive_zero:
  assumes "fst m = 0" "\<not> snd m"
  shows "fst (np_arctan2 (fl_mul m (fl_sin ph)) (fl_mul m (fl_cos ph)))
     = (if cos (fst ph) < 0 then (if sin (fst ph) < 0 then - pi else pi) else 0)"
proof -
  have "signbit (fl_sin ph) = (sin (fst ph) < 0)" if "cos (fst ph) < 0"
  proof -
    from that have "fst ph \<noteq> 0" by auto
    then show ?thesis by (simp add: fl_sin_def signbit_def)
  qed
  moreover have "\<not> signbit m" using assms by (simp add: signbit_def)
  ultimately show ?thesis using assms(1) by (simp add: channels_zero)
qed

lemma channels_principal:
  assumes "0 < fst m" "- pi < fst ph" "fst ph \<le> pi"
  shows "fst (np_arctan2 (fl_mul m (fl_sin ph)) (fl_mul m (fl_cos ph))) = fst ph"
proof -
  let ?t = "fst (np_arctan2 (fl_mul m (fl_sin ph)) (fl_mul m (fl_cos ph)))"
  from channels_positive(1) [OF assms(1), of ph] obtain n :: int
    where "?t = fst ph + 2 * pi * real_of_int n" ..
  moreover have "- pi < ?t" by (rule channels_positive(2) [OF assms(1)])
  moreover have "?t \<le> pi"
    using np_arctan2_range [of "fl_mul m (fl_sin ph)" "fl_mul m (fl_cos ph)"] by blast
  ultimately show ?thesis using assms(2,3) by (rule principal_unique)
qed

subsection \<open>Recomposition\<close>

lemma elem_get_fdata [simp]: "elem (get_fdata img) idx = elem (dataobj img) idx"
  by (simp add: elem_def get_fdata_def)

lemma np_hypot_near: "\<bar>real_of_int (np_rint (np_hypot x y)) - sqrt (x\<^sup>2 + y\<^sup>2)\<bar> \<le> 1 / 2"
  using np_rint_nearest [of "np_hypot x y"] by (simp add: np_hypot_def)

lemma decompose_ok:
  assumes "shape (dataobj mag_nii) = shape (dataobj pha_nii)"
  shows "\<exists>re im. decompose mag_nii pha_nii = Inr (re, im)
     \<and> affine re = affine pha_nii \<and> affine im = affine pha_nii
     \<and> shape (dataobj re) = shape (dataobj pha_nii)
     \<and> shape (dataobj im) = shape (dataobj pha_nii)
     \<and> (\<forall>idx. valid_index (shape (dataobj pha_nii)) idx \<longrightarrow>
           elem (dataobj re) idx
             = fl_mul (elem (dataobj mag_nii) idx) (fl_cos (elem (dataobj pha_nii) idx))
           \<and> elem (dataobj im) idx
             = fl_mul (elem (dataobj mag_nii) idx) (fl_sin (elem (dataobj pha_nii) idx)))"
proof -
  have e: "fl_mul (elem (get_fdata mag_nii) idx) (f (elem (get_fdata pha_nii) idx))
      = fl_mul (elem (dataobj mag_nii) idx) (f (elem (dataobj pha_nii) idx))" for f idx
    by simp
  have c: "elem \<lparr>shape = s, item = (\<lambda>idx. fst (f idx)), neg0 = (\<lambda>idx. snd (f idx)),
      dtype = d\<rparr> idx = f idx" for s f d idx
    by (simp add: elem_def)
  have g: "shape (get_fdata mag_nii) = shape (dataobj pha_nii)"
    "shape (get_fdata pha_nii) = shape (dataobj pha_nii)"
    using assms by (simp_all add: get_fdata_def)
  have m: "elem (np_map f a) idx = f (elem a idx)" "shape (np_map f a) = shape a" for f a idx
    by (simp_all add: np_map_def elem_def)
  show ?thesis
    by (simp add: decompose_def np_binop_def g m c Nifti1Image_def Let_def
        broadcast_shapes_same bidx_valid del: fl_values elem_simps)
qed

lemma recompose_items:
  "(broadcast_shapes (shape (dataobj real_rot_nii)) (shape (dataobj imag_rot_nii)) = None
      \<and> recompose cst mag_nii pha_nii real_rot_nii imag_rot_nii = Inl ShapeMismatchError)
   \<or> (\<exists>m p. recompose cst mag_nii pha_nii real_rot_nii imag_rot_nii = Inr (m, p)
        \<and> dtype (dataobj m) = data_dtype (header mag_nii)
        \<and> dtype (dataobj p) = Float16
        \<and> affine m = affine real_rot_nii \<and> affine p = affine real_rot_nii
        \<and> (\<forall>idx. item (dataobj m) idx = cst (data_dtype (header mag_nii))
               (np_round (np_hypot
                  (item (dataobj real_rot_nii) (bidx (shape (dataobj real_rot_nii)) idx))
                  (item (dataobj imag_rot_nii) (bidx (shape (dataobj imag_rot_nii)) idx)))))
        \<and> (\<forall>idx. item (dataobj p) idx = cst Float16 (fst (np_arctan2
               (elem (dataobj imag_rot_nii) (bidx (shape (dataobj imag_rot_nii)) idx))
               (elem (dataobj real_rot_nii) (bidx (shape (dataobj real_rot_nii)) idx)))))
        \<and> (shape (dataobj real_rot_nii) = shape (dataobj imag_rot_nii) \<longrightarrow>
             shape (dataobj m) = shape (dataobj real_rot_nii)
             \<and> shape (dataobj p) = shape (dataobj real_rot_nii)))"
proof (cases "broadcast_shapes (shape (dataobj real_rot_nii)) (shape (dataobj imag_rot_nii))")
  case None
  then show ?thesis
    by (simp add: recompose_def np_binop_def get_fdata_def)
next
  case (Some s)
  then have c: "broadcast_shapes (shape (dataobj imag_rot_nii)) (shape (dataobj real_rot_nii))
      = Some s"
    by (simp add: broadcast_shapes_commute [of "shape (dataobj imag_rot_nii)"])
  have g: "shape (get_fdata real_rot_nii) = shape (dataobj real_rot_nii)"
    "shape (get_fdata imag_rot_nii) = shape (dataobj imag_rot_nii)"
    by (simp_all add: get_fdata_def)
  from Some c show ?thesis
    by (auto simp: recompose_def np_binop_def g np_map_def np_array_def
        Nifti1Image_def Let_def broadcast_shapes_same)
qed

text \<open>
  C5. When the target affine, the two channels and their interpolation (and that of the
  mask) are there, \<open>resample_to_axial\<close> either raises because the two interpolated shapes
  cannot be broadcast, or returns, with the interpolated mask, a magnitude that is
  \<open>hypot(real', imag')\<close> of the interpolated channels rounded to the nearest integer and
  then converted to the magnitude header's data type, whatever that type is (integer or
  floating point), and a phase that is \<open>arctan2(imag', real')\<close> of the interpolated
  channels converted to float16.
\<close>

theorem recompose_channels:
  assumes "base_affine mag_nii = Inr target"
    and "decompose mag_nii pha_nii = Inr (real_nii, imag_nii)"
    and "resample_img ev real_nii target None Continuous = Inr real_rot_nii"
    and "resample_img ev imag_nii target None Continuous = Inr imag_rot_nii"
    and "resample_mask ev mask_nii target = Inr mask_rot_nii"
  shows
  "(broadcast_shapes (shape (dataobj real_rot_nii)) (shape (dataobj imag_rot_nii)) = None
      \<and> resample_to_axial ev mag_nii pha_nii mask_nii = Inl ShapeMismatchError)
   \<or> (\<exists>m p. resample_to_axial ev mag_nii pha_nii mask_nii = Inr (m, p, mask_rot_nii)
        \<and> dtype (dataobj m) = data_dtype (header mag_nii)
        \<and> dtype (dataobj p) = Float16
        \<and> affine m = affine real_rot_nii \<and> affine p = affine real_rot_nii
        \<and> (\<forall>idx. \<exists>k::int.
               \<bar>real_of_int k - sqrt ((item (dataobj real_rot_nii)
                      (bidx (shape (dataobj real_rot_nii)) idx))\<^sup>2
                   + (item (dataobj imag_rot_nii)
                      (bidx (shape (dataobj imag_rot_nii)) idx))\<^sup>2)\<bar> \<le> 1 / 2
               \<and> k = np_rint (np_hypot
                      (item (dataobj real_rot_nii) (bidx (shape (dataobj real_rot_nii)) idx))
                      (item (dataobj imag_rot_nii) (bidx (shape (dataobj imag_rot_nii)) idx)))
               \<and> item (dataobj m) idx
                   = cast ev (data_dtype (header mag_nii)) (real_of_int k))
        \<and> (\<forall>idx. item (dataobj p) idx = cast ev Float16 (fst (np_arctan2
               (elem (dataobj imag_rot_nii) (bidx (shape (dataobj imag_rot_nii)) idx))
               (elem (dataobj real_rot_nii) (bidx (shape (dataobj real_rot_nii)) idx)))))
        \<and> (shape (dataobj real_rot_nii) = shape (dataobj imag_rot_nii) \<longrightarrow>
             shape (dataobj m) = shape (dataobj real_rot_nii)
             \<and> shape (dataobj p) = shape (dataobj real_rot_nii)
             \<and> (\<forall>idx. valid_index (shape (dataobj real_rot_nii)) idx \<longrightarrow>
                   item (dataobj m) idx = cast ev (data_dtype (header mag_nii))
                     (np_round (np_hypot (item (dataobj real_rot_nii) idx)
                                         (item (dataobj imag_rot_nii) idx)))
                   \<and> item (dataobj p) idx = cast ev Float16
                     (fst (np_arctan2 (elem (dataobj imag_rot_nii) idx)
                                      (elem (dataobj real_rot_nii) idx))))))"
proof -
  have rta: "resample_to_axial ev mag_nii pha_nii mask_nii
      = (case recompose (cast ev) mag_nii pha_nii real_rot_nii imag_rot_nii of
           Inl e \<Rightarrow> Inl e
         | Inr (m, p) \<Rightarrow> Inr (m, p, mask_rot_nii))"
    using assms by (simp add: resample_to_axial_def)
  from recompose_items [of real_rot_nii imag_rot_nii "cast ev" mag_nii pha_nii]
  show ?thesis
  proof (elim disjE conjE exE)
    assume "broadcast_shapes (shape (dataobj real_rot_nii)) (shape (dataobj imag_rot_nii)) = None"
      and "recompose (cast ev) mag_nii pha_nii real_rot_nii imag_rot_nii
        = Inl ShapeMismatchError"
    then show ?thesis by (simp add: rta)
  next
    fix m p
    assume r: "recompose (cast ev) mag_nii pha_nii real_rot_nii imag_rot_nii = Inr (m, p)"
      and d: "dtype (dataobj m) = data_dtype (header mag_nii)" "dtype (dataobj p) = Float16"
        "affine m = affine real_rot_nii" "affine p = affine real_rot_nii"
      and mi: "\<forall>idx. item (dataobj m) idx = cast ev (data_dtype (header mag_nii))
               (np_round (np_hypot
                  (item (dataobj real_rot_nii) (bidx (shape (dataobj real_rot_nii)) idx))
                  (item (dataobj imag_rot_nii) (bidx (shape (dataobj imag_rot_nii)) idx))))"
      and pi: "\<forall>idx. item (dataobj p) idx = cast ev Float16 (fst (np_arctan2
               (elem (dataobj imag_rot_nii) (bidx (shape (dataobj imag_rot_nii)) idx))
               (elem (dataobj real_rot_nii) (bidx (shape (dataobj real_rot_nii)) idx))))"
      and sh: "shape (dataobj real_rot_nii) = shape (dataobj imag_rot_nii) \<longrightarrow>
             shape (dataobj m) = shape (dataobj real_rot_nii)
             \<and> shape (dataobj p) = shape (dataobj real_rot_nii)"
    have ret: "resample_to_axial ev mag_nii pha_nii mask_nii = Inr (m, p, mask_rot_nii)"
      by (simp add: rta r)
    have A: "\<forall>idx. \<exists>k::int.
               \<bar>real_of_int k - sqrt ((item (dataobj real_rot_nii)
                      (bidx (shape (dataobj real_rot_nii)) idx))\<^sup>2
                   + (item (dataobj imag_rot_nii)
                      (bidx (shape (dataobj imag_rot_nii)) idx))\<^sup>2)\<bar> \<le> 1 / 2
               \<and> k = np_rint (np_hypot
                      (item (dataobj real_rot_nii) (bidx (shape (dataobj real_rot_nii)) idx))
                      (item (dataobj imag_rot_nii) (bidx (shape (dataobj imag_rot_nii)) idx)))
               \<and> item (dataobj m) idx
                   = cast ev (data_dtype (header mag_nii)) (real_of_int k)"
    proof
      fix idx
      let ?x = "item (dataobj real_rot_nii) (bidx (shape (dataobj real_rot_nii)) idx)"
      let ?y = "item (dataobj imag_rot_nii) (bidx (shape (dataobj imag_rot_nii)) idx)"
      have "\<bar>real_of_int (np_rint (np_hypot ?x ?y)) - sqrt (?x\<^sup>2 + ?y\<^sup>2)\<bar> \<le> 1 / 2"
        by (rule np_hypot_near)
      moreover have "item (dataobj m) idx
          = cast ev (data_dtype (header mag_nii)) (real_of_int (np_rint (np_hypot ?x ?y)))"
        using mi [rule_format, of idx] by (simp only: np_round_def)
      ultimately show "\<exists>k::int. \<bar>real_of_int k - sqrt (?x\<^sup>2 + ?y\<^sup>2)\<bar> \<le> 1 / 2
          \<and> k = np_rint (np_hypot ?x ?y)
          \<and> item (dataobj m) idx = cast ev (data_dtype (header mag_nii)) (real_of_int k)"
        by blast
    qed
    have B: "shape (dataobj real_rot_nii) = shape (dataobj imag_rot_nii) \<longrightarrow>
             shape (dataobj m) = shape (dataobj real_rot_nii)
             \<and> shape (dataobj p) = shape (dataobj real_rot_nii)
             \<and> (\<forall>idx. valid_index (shape (dataobj real_rot_nii)) idx \<longrightarrow>
                   item (dataobj m) idx = cast ev (data_dtype (header mag_nii))
                     (np_round (np_hypot (item (dataobj real_rot_nii) idx)
                                         (item (dataobj imag_rot_nii) idx)))
                   \<and> item (dataobj p) idx = cast ev Float16
                     (fst (np_arctan2 (elem (dataobj imag_rot_nii) idx)
                                      (elem (dataobj real_rot_nii) idx))))"
    proof (intro impI conjI allI)
      assume e: "shape (dataobj real_rot_nii) = shape (dataobj imag_rot_nii)"
      with sh show "shape (dataobj m) = shape (dataobj real_rot_nii)"
        "shape (dataobj p) = shape (dataobj real_rot_nii)" by simp_all
      fix idx
      assume v: "valid_index (shape (dataobj real_rot_nii)) idx"
      then have b: "bidx (shape (dataobj real_rot_nii)) idx = idx"
        "bidx (shape (dataobj imag_rot_nii)) idx = idx"
        using e by (simp_all add: bidx_valid)
      from mi [rule_format, of idx] show "item (dataobj m) idx
          = cast ev (data_dtype (header mag_nii))
              (np_round (np_hypot (item (dataobj real_rot_nii) idx)
                                  (item (dataobj imag_rot_nii) idx)))"
        unfolding b .
      from pi [rule_format, of idx] show "item (dataobj p) idx = cast ev Float16
          (fst (np_arctan2 (elem (dataobj imag_rot_nii) idx) (elem (dataobj real_rot_nii) idx)))"
        unfolding b .
    qed
    from ret d A pi B show ?thesis by blast
  qed
qed

lemma np_round_half_even: "np_round (5 / 2) = 2"
proof -
  have "\<lfloor>5 / 2 :: real\<rfloor> = 2" by linarith
  then show ?thesis by (simp add: np_round_def np_rint_def Let_def)
qed

lemma base_affine_small:
  "base_affine (volume [2, 2, 2] v dt diag2 [2, 2, 2])
     = Inr [[2, 0, 0, - 2], [0, 2, 0, - 2], [0, 0, 2, - 2], [0, 0, 0, 1]]"
  by (simp add: base_affine_def volume_def diag2_def np_mul_def np_diag_def np_eye_def
      np_fill_diagonal_def set_entry_def set_translation_def upt_0_4 Let_def numeral_2_eq_2)

theorem recompose_channels_witness:
  "base_affine (volume [2, 2, 2] (5 / 2) Float32 diag2 [2, 2, 2])
     = Inr [[2, 0, 0, - 2], [0, 2, 0, - 2], [0, 0, 2, - 2], [0, 0, 0, 1]]
   \<and> is_floating (data_dtype (header (volume [2, 2, 2] (5 / 2) Float32 diag2 [2, 2, 2])))
   \<and> (\<exists>re im. decompose (volume [2, 2, 2] (5 / 2) Float32 diag2 [2, 2, 2])
                  (volume [2, 2, 2] (1 / 2) Float32 diag2 [2, 2, 2]) = Inr (re, im)
        \<and> resample_img identity_env re
              [[2, 0, 0, - 2], [0, 2, 0, - 2], [0, 0, 2, - 2], [0, 0, 0, 1]] None Continuous
            = Inr re
        \<and> resample_img identity_env im
              [[2, 0, 0, - 2], [0, 2, 0, - 2], [0, 0, 2, - 2], [0, 0, 0, 1]] None Continuous
            = Inr im
        \<and> item (dataobj re) [1, 0, 1] = 5 / 2 * cos (1 / 2)
        \<and> item (dataobj im) [1, 0, 1] = 5 / 2 * sin (1 / 2))
   \<and> resample_mask identity_env None
         [[2, 0, 0, - 2], [0, 2, 0, - 2], [0, 0, 2, - 2], [0, 0, 0, 1]] = Inr None
   \<and> (\<exists>m p. resample_to_axial identity_env (volume [2, 2, 2] (5 / 2) Float32 diag2 [2, 2, 2])
                (volume [2, 2, 2] (1 / 2) Float32 diag2 [2, 2, 2]) None = Inr (m, p, None)
        \<and> item (dataobj m) [1, 0, 1] = 2
        \<and> dtype (dataobj m) = Float32
        \<and> item (dataobj p) [1, 0, 1] = 1 / 2
        \<and> dtype (dataobj p) = Float16)"
proof -
  let ?mag = "volume [2, 2, 2] (5 / 2) Float32 diag2 [2, 2, 2]"
  let ?pha = "volume [2, 2, 2] (1 / 2) Float32 diag2 [2, 2, 2]"
  let ?T = "[[2, 0, 0, - 2], [0, 2, 0, - 2], [0, 0, 2, - 2], [0, 0, 0, 1 :: real]]"
  have b: "base_affine ?mag = Inr ?T" by (rule base_affine_small)
  have fl: "is_floating (data_dtype (header ?mag))" by (simp add: volume_def)
  have sh: "shape (dataobj ?mag) = shape (dataobj ?pha)"
    by (simp add: volume_def const_array_def)
  have v: "valid_index (shape (dataobj ?pha)) [1, 0, 1]"
    by (simp add: volume_def const_array_def valid_index_def)
  have g: "elem (dataobj ?mag) [1, 0, 1] = (5 / 2, False)"
    and h: "elem (dataobj ?pha) [1, 0, 1] = (1 / 2, False)"
    by (simp_all add: volume_def const_array_def elem_def)
  from decompose_ok [OF sh] obtain re im where
    dc: "decompose ?mag ?pha = Inr (re, im)"
    and s: "shape (dataobj re) = shape (dataobj ?pha)" "shape (dataobj im) = shape (dataobj ?pha)"
    and el: "\<forall>idx. valid_index (shape (dataobj ?pha)) idx \<longrightarrow>
           elem (dataobj re) idx
             = fl_mul (elem (dataobj ?mag) idx) (fl_cos (elem (dataobj ?pha) idx))
           \<and> elem (dataobj im) idx
             = fl_mul (elem (dataobj ?mag) idx) (fl_sin (elem (dataobj ?pha) idx))"
    by blast
  have e: "elem (dataobj re) [1, 0, 1] = fl_mul (5 / 2, False) (fl_cos (1 / 2, False))"
    "elem (dataobj im) [1, 0, 1] = fl_mul (5 / 2, False) (fl_sin (1 / 2, False))"
    using el [rule_format, OF v] unfolding g h by blast+
  have it: "item (dataobj re) [1, 0, 1] = 5 / 2 * cos (1 / 2)"
    "item (dataobj im) [1, 0, 1] = 5 / 2 * sin (1 / 2)"
    using e [THEN arg_cong, of fst] by simp_all
  have r: "resample_img identity_env re ?T None Continuous = Inr re"
    "resample_img identity_env im ?T None Continuous = Inr im"
    by (simp_all add: identity_env_def)
  have k: "resample_mask identity_env None ?T = Inr None"
    by (simp add: resample_mask_def)
  have c: "cast identity_env = (\<lambda>dt x. x)" by (simp add: identity_env_def)
  have sh': "shape (dataobj re) = shape (dataobj im)" using s by simp
  then have ok: "broadcast_shapes (shape (dataobj re)) (shape (dataobj im)) \<noteq> None"
    by (simp add: broadcast_shapes_same)
  have v': "valid_index (shape (dataobj re)) [1, 0, 1]" using v s by simp
  from recompose_channels [OF b dc r k] ok sh' obtain m p where
    ret: "resample_to_axial identity_env ?mag ?pha None = Inr (m, p, None)"
    and dt: "dtype (dataobj m) = data_dtype (header ?mag)" "dtype (dataobj p) = Float16"
    and all: "\<forall>idx. valid_index (shape (dataobj re)) idx \<longrightarrow>
         item (dataobj m) idx = cast identity_env (data_dtype (header ?mag))
           (np_round (np_hypot (item (dataobj re) idx) (item (dataobj im) idx)))
         \<and> item (dataobj p) idx = cast identity_env Float16
           (fst (np_arctan2 (elem (dataobj im) idx) (elem (dataobj re) idx)))"
    by blast
  have mv: "item (dataobj m) [1, 0, 1]
      = np_round (np_hypot (5 / 2 * cos (1 / 2)) (5 / 2 * sin (1 / 2)))"
    and pv: "item (dataobj p) [1, 0, 1]
      = fst (np_arctan2 (fl_mul (5 / 2, False) (fl_sin (1 / 2, False)))
                        (fl_mul (5 / 2, False) (fl_cos (1 / 2, False))))"
    using all [rule_format, OF v'] unfolding c it e by blast+
  from mv have m2: "item (dataobj m) [1, 0, 1] = 2"
    by (simp only: np_hypot_polar) (simp add: np_round_half_even)
  have "- pi < 1 / 2" "1 / 2 \<le> pi" using pi_ge_two by linarith+
  then have "fst (np_arctan2 (fl_mul (5 / 2, False) (fl_sin (1 / 2, False)))
                             (fl_mul (5 / 2, False) (fl_cos (1 / 2, False)))) = 1 / 2"
    using channels_principal [of "(5 / 2, False)" "(1 / 2, False)"] by simp
  with pv have p2: "item (dataobj p) [1, 0, 1] = 1 / 2" by simp
  have "dtype (dataobj m) = Float32" using dt(1) by (simp add: volume_def)
  with b fl dc r it k ret m2 p2 dt(2) show ?thesis by blast
qed

subsection \<open>The round trip\<close>

lemma roundtrip_items:
  assumes "shape (dataobj mag_nii) = shape (dataobj pha_nii)"
  shows "\<exists>re im m p. decompose mag_nii pha_nii = Inr (re, im)
     \<and> recompose cst mag_nii pha_nii re im = Inr (m, p)
     \<and> (\<forall>idx. valid_index (shape (dataobj mag_nii)) idx \<longrightarrow>
           item (dataobj m) idx = cst (data_dtype (header mag_nii))
             (np_round \<bar>item (dataobj mag_nii) idx\<bar>)
           \<and> item (dataobj p) idx = cst Float16
             (fst (np_arctan2
                (fl_mul (elem (dataobj mag_nii) idx) (fl_sin (elem (dataobj pha_nii) idx)))
                (fl_mul (elem (dataobj mag_nii) idx) (fl_cos (elem (dataobj pha_nii) idx))))))"
proof -
  from decompose_ok [OF assms] obtain re im where
    dc: "decompose mag_nii pha_nii = Inr (re, im)"
    and s: "shape (dataobj re) = shape (dataobj pha_nii)"
      "shape (dataobj im) = shape (dataobj pha_nii)"
    and el: "\<And>idx. valid_index (shape (dataobj pha_nii)) idx \<Longrightarrow>
           elem (dataobj re) idx
             = fl_mul (elem (dataobj mag_nii) idx) (fl_cos (elem (dataobj pha_nii) idx))
           \<and> elem (dataobj im) idx
             = fl_mul (elem (dataobj mag_nii) idx) (fl_sin (elem (dataobj pha_nii) idx))"
    by blast
  have "broadcast_shapes (shape (dataobj re)) (shape (dataobj im)) \<noteq> None"
    using s by (simp add: broadcast_shapes_same)
  with recompose_items [of re im cst mag_nii pha_nii] obtain m p where
    rc: "recompose cst mag_nii pha_nii re im = Inr (m, p)"
    and mi: "\<And>idx. item (dataobj m) idx = cst (data_dtype (header mag_nii))
               (np_round (np_hypot (item (dataobj re) (bidx (shape (dataobj re)) idx))
                                   (item (dataobj im) (bidx (shape (dataobj im)) idx))))"
    and pi: "\<And>idx. item (dataobj p) idx = cst Float16 (fst (np_arctan2
               (elem (dataobj im) (bidx (shape (dataobj im)) idx))
               (elem (dataobj re) (bidx (shape (dataobj re)) idx))))"
    by blast
  have "item (dataobj m) idx = cst (data_dtype (header mag_nii))
             (np_round \<bar>item (dataobj mag_nii) idx\<bar>)
           \<and> item (dataobj p) idx = cst Float16
             (fst (np_arctan2
                (fl_mul (elem (dataobj mag_nii) idx) (fl_sin (elem (dataobj pha_nii) idx)))
                (fl_mul (elem (dataobj mag_nii) idx) (fl_cos (elem (dataobj pha_nii) idx)))))"
    if v: "valid_index (shape (dataobj mag_nii)) idx" for idx
  proof -
    from v have v': "valid_index (shape (dataobj pha_nii)) idx" using assms by simp
    then have b: "bidx (shape (dataobj re)) idx = idx" "bidx (shape (dataobj im)) idx = idx"
      using s by (simp_all add: bidx_valid)
    note e = el [OF v']
    have "item (dataobj re) idx = item (dataobj mag_nii) idx * cos (item (dataobj pha_nii) idx)"
      "item (dataobj im) idx = item (dataobj mag_nii) idx * sin (item (dataobj pha_nii) idx)"
      using e [THEN conjunct1, THEN arg_cong, of fst] e [THEN conjunct2, THEN arg_cong, of fst]
      by simp_all
    then have "item (dataobj m) idx = cst (data_dtype (header mag_nii))
             (np_round \<bar>item (dataobj mag_nii) idx\<bar>)"
      using mi [of idx] unfolding b by (simp only: np_hypot_polar)
    moreover have "item (dataobj p) idx = cst Float16
             (fst (np_arctan2
                (fl_mul (elem (dataobj mag_nii) idx) (fl_sin (elem (dataobj pha_nii) idx)))
                (fl_mul (elem (dataobj mag_nii) idx) (fl_cos (elem (dataobj pha_nii) idx)))))"
      using pi [of idx] e unfolding b by simp
    ultimately show ?thesis ..
  qed
  with dc rc show ?thesis by blast
qed

text \<open>
  C6 (amended). When a magnitude and phase pair of equal shapes is decomposed and at once
  recomposed, every new magnitude voxel is the conversion of the integer nearest to the
  absolute value of the old one, so that for a non-negative magnitude that the storage type
  represents exactly the two differ by at most 1; every new phase voxel is the float16
  conversion of an angle in the closed interval from \<open>-pi\<close> to \<open>pi\<close>. For a positive
  magnitude the angle is above \<open>-pi\<close> and differs from the old phase by a multiple of
  \<open>2 pi\<close> (and equals it when the old phase lies in \<open>(-pi, pi]\<close>). Where the magnitude is
  0 both channels are zeros and the angle is 0, \<open>pi\<close> or \<open>-pi\<close> by their signs: for a
  magnitude \<open>+0\<close> it is 0 when the cosine of the old phase is not negative, \<open>pi\<close> when the
  cosine is negative and the sine is not, and \<open>-pi\<close> when both are negative.
\<close>

theorem roundtrip_bound:
  assumes "shape (dataobj mag_nii) = shape (dataobj pha_nii)"
  shows "\<exists>re im m p. decompose mag_nii pha_nii = Inr (re, im)
     \<and> recompose cst mag_nii pha_nii re im = Inr (m, p)
     \<and> (\<forall>idx. valid_index (shape (dataobj mag_nii)) idx \<longrightarrow>
          (\<exists>k::int. item (dataobj m) idx = cst (data_dtype (header mag_nii)) (real_of_int k)
              \<and> \<bar>real_of_int k - \<bar>item (dataobj mag_nii) idx\<bar>\<bar> \<le> 1 / 2
              \<and> (0 \<le> item (dataobj mag_nii) idx
                   \<and> cst (data_dtype (header mag_nii)) (real_of_int k) = real_of_int k
                  \<longrightarrow> \<bar>item (dataobj m) idx - item (dataobj mag_nii) idx\<bar> \<le> 1))
          \<and> (\<exists>t. item (dataobj p) idx = cst Float16 t \<and> - pi \<le> t \<and> t \<le> pi
              \<and> (0 < item (dataobj mag_nii) idx \<longrightarrow>
                    - pi < t
                    \<and> (\<exists>n::int. t = item (dataobj pha_nii) idx + 2 * pi * real_of_int n))
              \<and> (0 < item (dataobj mag_nii) idx \<and> - pi < item (dataobj pha_nii) idx
                   \<and> item (dataobj pha_nii) idx \<le> pi \<longrightarrow> t = item (dataobj pha_nii) idx)
              \<and> (item (dataobj mag_nii) idx = 0 \<longrightarrow> t = 0 \<or> t = pi \<or> t = - pi)
              \<and> (item (dataobj mag_nii) idx = 0 \<and> \<not> neg0 (dataobj mag_nii) idx \<longrightarrow>
                    t = (if cos (item (dataobj pha_nii) idx) < 0
                         then (if sin (item (dataobj pha_nii) idx) < 0 then - pi else pi)
                         else 0))))"
proof -
  from roundtrip_items [OF assms, of cst] obtain re im m p where
    dc: "decompose mag_nii pha_nii = Inr (re, im)"
    and rc: "recompose cst mag_nii pha_nii re im = Inr (m, p)"
    and it: "\<And>idx. valid_index (shape (dataobj mag_nii)) idx \<Longrightarrow>
           item (dataobj m) idx = cst (data_dtype (header mag_nii))
             (np_round \<bar>item (dataobj mag_nii) idx\<bar>)
           \<and> item (dataobj p) idx = cst Float16
             (fst (np_arctan2
                (fl_mul (elem (dataobj mag_nii) idx) (fl_sin (elem (dataobj pha_nii) idx)))
                (fl_mul (elem (dataobj mag_nii) idx) (fl_cos (elem (dataobj pha_nii) idx)))))"
    by blast
  have "(\<exists>k::int. item (dataobj m) idx = cst (data_dtype (header mag_nii)) (real_of_int k)
              \<and> \<bar>real_of_int k - \<bar>item (dataobj mag_nii) idx\<bar>\<bar> \<le> 1 / 2
              \<and> (0 \<le> item (dataobj mag_nii) idx
                   \<and> cst (data_dtype (header mag_nii)) (real_of_int k) = real_of_int k
                  \<longrightarrow> \<bar>item (dataobj m) idx - item (dataobj mag_nii) idx\<bar> \<le> 1))
          \<and> (\<exists>t. item (dataobj p) idx = cst Float16 t \<and> - pi \<le> t \<and> t \<le> pi
              \<and> (0 < item (dataobj mag_nii) idx \<longrightarrow>
                    - pi < t
                    \<and> (\<exists>n::int. t = item (dataobj pha_nii) idx + 2 * pi * real_of_int n))
              \<and> (0 < item (dataobj mag_nii) idx \<and> - pi < item (dataobj pha_nii) idx
                   \<and> item (dataobj pha_nii) idx \<le> pi \<longrightarrow> t = item (dataobj pha_nii) idx)
              \<and> (item (dataobj mag_nii) idx = 0 \<longrightarrow> t = 0 \<or> t = pi \<or> t = - pi)
              \<and> (item (dataobj mag_nii) idx = 0 \<and> \<not> neg0 (dataobj mag_nii) idx \<longrightarrow>
                    t = (if cos (item (dataobj pha_nii) idx) < 0
                         then (if sin (item (dataobj pha_nii) idx) < 0 then - pi else pi)
                         else 0)))"
    if v: "valid_index (shape (dataobj mag_nii)) idx" for idx
  proof -
    let ?G = "elem (dataobj mag_nii) idx" and ?H = "elem (dataobj pha_nii) idx"
    let ?g = "item (dataobj mag_nii) idx" and ?h = "item (dataobj pha_nii) idx"
    let ?k = "np_rint \<bar>?g\<bar>"
    let ?t = "fst (np_arctan2 (fl_mul ?G (fl_sin ?H)) (fl_mul ?G (fl_cos ?H)))"
    have G: "fst ?G = ?g" "snd ?G = neg0 (dataobj mag_nii) idx" and H: "fst ?H = ?h"
      by simp_all
    have mi: "item (dataobj m) idx = cst (data_dtype (header mag_nii)) (real_of_int ?k)"
      using it [OF v] by (simp add: np_round_def)
    have near: "\<bar>real_of_int ?k - \<bar>?g\<bar>\<bar> \<le> 1 / 2"
      by (rule np_rint_nearest)
    have bound: "\<bar>item (dataobj m) idx - ?g\<bar> \<le> 1"
      if "0 \<le> ?g" "cst (data_dtype (header mag_nii)) (real_of_int ?k) = real_of_int ?k"
      using that near mi by simp
    have pi: "item (dataobj p) idx = cst Float16 ?t"
      using it [OF v] by simp
    have rng: "- pi \<le> ?t" "?t \<le> pi"
      using np_arctan2_range [of "fl_mul ?G (fl_sin ?H)" "fl_mul ?G (fl_cos ?H)"] by blast+
    have above: "- pi < ?t" if "0 < ?g"
      using channels_positive(2) [of ?G ?H] that unfolding G by blast
    have per: "\<exists>n::int. ?t = ?h + 2 * pi * real_of_int n" if "0 < ?g"
      using channels_positive(1) [of ?G ?H] that unfolding G H by blast
    have same: "?t = ?h" if "0 < ?g" "- pi < ?h" "?h \<le> pi"
      using channels_principal [of ?G ?H] that unfolding G H by blast
    have zero: "?t = 0 \<or> ?t = pi \<or> ?t = - pi" if "?g = 0"
    proof -
      from that have "fst ?G = 0" by simp
      from channels_zero [OF this, of ?H] show ?thesis
        by (simp only: split: if_splits) blast+
    qed
    have pzero: "?t = (if cos ?h < 0 then (if sin ?h < 0 then - pi else pi) else 0)"
      if "?g = 0" "\<not> neg0 (dataobj mag_nii) idx"
      using channels_positive_zero [of ?G ?H] that unfolding G H by blast
    from mi near bound have A: "\<exists>k::int. item (dataobj m) idx = cst (data_dtype (header mag_nii)) (real_of_int k)
              \<and> \<bar>real_of_int k - \<bar>?g\<bar>\<bar> \<le> 1 / 2
              \<and> (0 \<le> ?g \<and> cst (data_dtype (header mag_nii)) (real_of_int k) = real_of_int k
                  \<longrightarrow> \<bar>item (dataobj m) idx - ?g\<bar> \<le> 1)"
      by blast
    from pi rng above per same zero pzero
    have B: "\<exists>t. item (dataobj p) idx = cst Float16 t \<and> - pi \<le> t \<and> t \<le> pi
              \<and> (0 < ?g \<longrightarrow> - pi < t \<and> (\<exists>n::int. t = ?h + 2 * pi * real_of_int n))
              \<and> (0 < ?g \<and> - pi < ?h \<and> ?h \<le> pi \<longrightarrow> t = ?h)
              \<and> (?g = 0 \<longrightarrow> t = 0 \<or> t = pi \<or> t = - pi)
              \<and> (?g = 0 \<and> \<not> neg0 (dataobj mag_nii) idx \<longrightarrow>
                    t = (if cos ?h < 0 then (if sin ?h < 0 then - pi else pi) else 0))"
      by blast
    from A B show ?thesis by blast
  qed
  with dc rc show ?thesis by blast
qed

theorem roundtrip_bound_witness:
  "shape (dataobj (volume [2, 2, 2] 100 Int16 diag2 [2, 2, 2]))
     = shape (dataobj (volume [2, 2, 2] (1 / 2) Float32 diag2 [2, 2, 2]))
   \<and> valid_index (shape (dataobj (volume [2, 2, 2] 100 Int16 diag2 [2, 2, 2]))) [1, 0, 1]
   \<and> (\<exists>re im m p. decompose (volume [2, 2, 2] 100 Int16 diag2 [2, 2, 2])
                (volume [2, 2, 2] (1 / 2) Float32 diag2 [2, 2, 2]) = Inr (re, im)
        \<and> recompose (\<lambda>dt x. x) (volume [2, 2, 2] 100 Int16 diag2 [2, 2, 2])
                (volume [2, 2, 2] (1 / 2) Float32 diag2 [2, 2, 2]) re im = Inr (m, p)
        \<and> item (dataobj m) [1, 0, 1] = 100
        \<and> item (dataobj p) [1, 0, 1] = 1 / 2)"
proof -
  let ?mag = "volume [2, 2, 2] 100 Int16 diag2 [2, 2, 2]"
  let ?pha = "volume [2, 2, 2] (1 / 2) Float32 diag2 [2, 2, 2]"
  have sh: "shape (dataobj ?mag) = shape (dataobj ?pha)"
    by (simp add: volume_def const_array_def)
  have v: "valid_index (shape (dataobj ?mag)) [1, 0, 1]"
    by (simp add: volume_def const_array_def valid_index_def)
  have g: "item (dataobj ?mag) [1, 0, 1] = 100" and h: "item (dataobj ?pha) [1, 0, 1] = 1 / 2"
    by (simp_all add: volume_def const_array_def)
  from roundtrip_bound [OF sh, of "\<lambda>dt x. x"] obtain re im m p where
    dc: "decompose ?mag ?pha = Inr (re, im)"
    and rc: "recompose (\<lambda>dt x. x) ?mag ?pha re im = Inr (m, p)"
    and all: "\<forall>idx. valid_index (shape (dataobj ?mag)) idx \<longrightarrow>
          (\<exists>k::int. item (dataobj m) idx = real_of_int k
              \<and> \<bar>real_of_int k - \<bar>item (dataobj ?mag) idx\<bar>\<bar> \<le> 1 / 2
              \<and> (0 \<le> item (dataobj ?mag) idx \<and> real_of_int k = real_of_int k
                  \<longrightarrow> \<bar>item (dataobj m) idx - item (dataobj ?mag) idx\<bar> \<le> 1))
          \<and> (\<exists>t. item (dataobj p) idx = t \<and> - pi \<le> t \<and> t \<le> pi
              \<and> (0 < item (dataobj ?mag) idx \<longrightarrow>
                    - pi < t
                    \<and> (\<exists>n::int. t = item (dataobj ?pha) idx + 2 * pi * real_of_int n))
              \<and> (0 < item (dataobj ?mag) idx \<and> - pi < item (dataobj ?pha) idx
                   \<and> item (dataobj ?pha) idx \<le> pi \<longrightarrow> t = item (dataobj ?pha) idx)
              \<and> (item (dataobj ?mag) idx = 0 \<longrightarrow> t = 0 \<or> t = pi \<or> t = - pi)
              \<and> (item (dataobj ?mag) idx = 0 \<and> \<not> neg0 (dataobj ?mag) idx \<longrightarrow>
                    t = (if cos (item (dataobj ?pha) idx) < 0
                         then (if sin (item (dataobj ?pha) idx) < 0 then - pi else pi)
                         else 0)))"
    by blast
  from all [rule_format, OF v] obtain k :: int where
    k: "item (dataobj m) [1, 0, 1] = real_of_int k"
      "\<bar>real_of_int k - \<bar>item (dataobj ?mag) [1, 0, 1]\<bar>\<bar> \<le> 1 / 2"
    by blast
  from k(2) have "k = 100" unfolding g by linarith
  with k(1) have m: "item (dataobj m) [1, 0, 1] = 100" by simp
  have "- pi < 1 / 2" "1 / 2 \<le> pi" using pi_ge_two by linarith+
  with all [rule_format, OF v] have p: "item (dataobj p) [1, 0, 1] = 1 / 2"
    unfolding g h by auto
  from sh v dc rc m p show ?thesis by blast
qed

lemma two_pi_multiple_not_one: "\<not> (\<exists>n::int. (0::real) = 1 + 2 * pi * real_of_int n)"
proof
  assume "\<exists>n::int. (0::real) = 1 + 2 * pi * real_of_int n"
  then obtain n :: int where "(0::real) = 1 + 2 * pi * real_of_int n" by blast
  then have n: "2 * pi * real_of_int n = - 1" by linarith
  have p: "2 \<le> pi" by (rule pi_ge_two)
  show False
  proof (cases "n = 0")
    case True
    with n show False by simp
  next
    case False
    then have "1 \<le> \<bar>real_of_int n\<bar>" by (simp add: abs_if) 
    then have "2 * pi * 1 \<le> 2 * pi * \<bar>real_of_int n\<bar>"
      using p by (intro mult_left_mono) simp_all
    moreover have "\<bar>2 * pi * real_of_int n\<bar> = 2 * pi * \<bar>real_of_int n\<bar>"
      using p by (simp add: abs_mult)
    ultimately show False using n p by simp
  qed
qed

text \<open>
  C6 as stated fails: a voxel of magnitude 0 and phase 1 comes back with phase 0, which
  differs from 1 by no multiple of \<open>2 pi\<close>; a voxel of magnitude -5 comes back as 5.
\<close>

theorem roundtrip_counterexample:
  "valid_index (shape (dataobj probe_mag)) [0, 0, 0]
   \<and> valid_index (shape (dataobj probe_mag)) [1, 0, 0]
   \<and> item (dataobj probe_mag) [0, 0, 0] = 0
   \<and> item (dataobj probe_mag) [1, 0, 0] = - 5
   \<and> item (dataobj (volume [2, 2, 2] 1 Float32 diag2 [2, 2, 2])) [0, 0, 0] = 1
   \<and> (\<exists>re im m p.
         decompose probe_mag (volume [2, 2, 2] 1 Float32 diag2 [2, 2, 2]) = Inr (re, im)
         \<and> recompose (\<lambda>dt x. x) probe_mag (volume [2, 2, 2] 1 Float32 diag2 [2, 2, 2]) re im
             = Inr (m, p)
         \<and> item (dataobj p) [0, 0, 0] = 0
         \<and> item (dataobj m) [1, 0, 0] = 5
         \<and> \<not> \<bar>item (dataobj m) [1, 0, 0] - item (dataobj probe_mag) [1, 0, 0]\<bar> \<le> 1
         \<and> \<not> (\<exists>n::int. item (dataobj p) [0, 0, 0]
               = item (dataobj (volume [2, 2, 2] 1 Float32 diag2 [2, 2, 2])) [0, 0, 0]
                 + 2 * pi * real_of_int n))"
proof -
  let ?pha = "volume [2, 2, 2] 1 Float32 diag2 [2, 2, 2]"
  have sh: "shape (dataobj probe_mag) = shape (dataobj ?pha)"
    by (simp add: probe_mag_def volume_def const_array_def)
  have v0: "valid_index (shape (dataobj probe_mag)) [0, 0, 0]"
    and v1: "valid_index (shape (dataobj probe_mag)) [1, 0, 0]"
    by (simp_all add: probe_mag_def valid_index_def)
  have g0: "item (dataobj probe_mag) [0, 0, 0] = 0"
    and g1: "item (dataobj probe_mag) [1, 0, 0] = - 5"
    and h: "\<And>idx. item (dataobj ?pha) idx = 1"
    by (simp_all add: probe_mag_def volume_def const_array_def)
  have G0: "elem (dataobj probe_mag) [0, 0, 0] = (0, False)"
    and H: "\<And>idx. elem (dataobj ?pha) idx = (1, False)"
    by (simp_all add: probe_mag_def volume_def const_array_def elem_def)
  from roundtrip_items [OF sh, of "\<lambda>dt x. x"] obtain re im m p where
    dc: "decompose probe_mag ?pha = Inr (re, im)"
    and rc: "recompose (\<lambda>dt x. x) probe_mag ?pha re im = Inr (m, p)"
    and it: "\<And>idx. valid_index (shape (dataobj probe_mag)) idx \<Longrightarrow>
           item (dataobj m) idx = np_round \<bar>item (dataobj probe_mag) idx\<bar>
           \<and> item (dataobj p) idx =
             fst (np_arctan2
                (fl_mul (elem (dataobj probe_mag) idx) (fl_sin (elem (dataobj ?pha) idx)))
                (fl_mul (elem (dataobj probe_mag) idx) (fl_cos (elem (dataobj ?pha) idx))))"
    by blast
  have "(1::real) \<le> pi / 2" using pi_ge_two by linarith
  then have c1: "\<not> cos (1::real) < 0"
    using cos_ge_zero [of "1::real"] by simp
  have "item (dataobj p) [0, 0, 0]
      = fst (np_arctan2 (fl_mul (0, False) (fl_sin (1, False)))
                        (fl_mul (0, False) (fl_cos (1, False))))"
    using it [OF v0] unfolding G0 H by blast
  then have p0: "item (dataobj p) [0, 0, 0] = 0"
    using channels_positive_zero [of "(0, False)" "(1, False)"] c1 by simp
  have r5: "np_rint 5 = 5" by (simp add: np_rint_def)
  have "item (dataobj m) [1, 0, 0] = np_round \<bar>- 5\<bar>"
    using it [OF v1] unfolding g1 by blast
  then have m1: "item (dataobj m) [1, 0, 0] = 5"
    by (simp add: np_round_def r5)
  have big: "\<not> \<bar>item (dataobj m) [1, 0, 0] - item (dataobj probe_mag) [1, 0, 0]\<bar> \<le> 1"
    unfolding m1 g1 by simp
  have off: "\<not> (\<exists>n::int. item (dataobj p) [0, 0, 0]
       = item (dataobj ?pha) [0, 0, 0] + 2 * pi * real_of_int n)"
    unfolding p0 h by (rule two_pi_multiple_not_one)
  from v0 v1 g0 g1 h [of "[0, 0, 0]"] dc rc p0 m1 big off show ?thesis by blast
qed

subsection \<open>Runs that return\<close>

lemma det3_diag2: "det3 diag2 = 8"
  by (simp add: det3_def diag2_def numeral_2_eq_2)

lemma recompose_ok:
  assumes "shape (dataobj re) = shape (dataobj im)"
  shows "\<exists>m p. recompose cst mag_nii pha_nii re im = Inr (m, p)"
  using assms
  by (simp add: recompose_def np_binop_def get_fdata_def Let_def broadcast_shapes_same)

lemma resample_to_axial_returns:
  assumes "base_affine mag_nii = Inr T" "decompose mag_nii pha_nii = Inr (re, im)"
    and "resample_img ev re T None Continuous = Inr re'"
    and "resample_img ev im T None Continuous = Inr im'"
    and "shape (dataobj re') = shape (dataobj im')"
  shows "\<exists>m p. resample_to_axial ev mag_nii pha_nii None = Inr (m, p, None)"
proof -
  from recompose_ok [OF assms(5)] obtain m p where
    "recompose (cast ev) mag_nii pha_nii re' im' = Inr (m, p)" by blast
  with assms(1-4) show ?thesis
    by (simp add: resample_to_axial_def resample_mask_def)
qed

lemma toy_resample_ok:
  assumes "length (shape (dataobj img)) = 3" "det3 (affine img) \<noteq> 0" "det3 T \<noteq> 0"
  shows "\<exists>out. resample_img example_env img T None i = Inr out
     \<and> shape (dataobj out) = shape (dataobj img)"
proof -
  from assms(1) obtain a b c where "shape (dataobj img) = [a, b, c]"
    by (auto simp: length_3_iff)
  with assms(2,3) show ?thesis
    by (simp add: example_env_def resample_onto_def toy_sampler_def Let_def)
qed

lemma example_resample_to_axial:
  "\<exists>rot. resample_to_axial example_env (volume [64, 64, 64] 100 Int16 diag2 [2, 2, 2])
      (volume [64, 64, 64] (1 / 2) Float32 diag2 [2, 2, 2]) None = Inr rot"
proof -
  let ?m = "volume [64, 64, 64] 100 Int16 diag2 [2, 2, 2]"
  let ?p = "volume [64, 64, 64] (1 / 2) Float32 diag2 [2, 2, 2]"
  let ?T = "[[2, 0, 0, - 64], [0, 2, 0, - 64], [0, 0, 2, - 64], [0, 0, 0, 1 :: real]]"
  have b: "base_affine ?m = Inr ?T"
    by (simp add: base_affine_def volume_def diag2_def np_mul_def np_diag_def np_eye_def
        np_fill_diagonal_def set_entry_def set_translation_def upt_0_4 Let_def numeral_2_eq_2)
  have d: "det3 ?T \<noteq> 0" by (simp add: det3_def numeral_2_eq_2)
  have "shape (dataobj ?m) = shape (dataobj ?p)" by (simp add: volume_def const_array_def)
  from decompose_ok [OF this] obtain re im where
    dc: "decompose ?m ?p = Inr (re, im)" "affine re = diag2" "affine im = diag2"
      "shape (dataobj re) = [64, 64, 64]" "shape (dataobj im) = [64, 64, 64]"
    by (auto simp: volume_def const_array_def)
  from toy_resample_ok [of re ?T Continuous] dc d obtain re' where
    re': "resample_img example_env re ?T None Continuous = Inr re'"
      "shape (dataobj re') = [64, 64, 64]"
    by (auto simp: det3_diag2)
  from toy_resample_ok [of im ?T Continuous] dc d obtain im' where
    im': "resample_img example_env im ?T None Continuous = Inr im'"
      "shape (dataobj im') = [64, 64, 64]"
    by (auto simp: det3_diag2)
  from resample_to_axial_returns [OF b dc(1) re'(1) im'(1)] re'(2) im'(2)
  show ?thesis by auto
qed

lemma example_env_can_save: "can_save example_env p"
  by (simp add: example_env_def)

subsection \<open>The obliquity gate\<close>

lemma nib_load_print [simp]: "nib_load (print m w) p = nib_load w p"
  by (simp add: nib_load_def print_def)

lemma files_print [simp]: "files (print m w) = files w"
  by (simp add: print_def)

lemma stdout_print [simp]: "stdout (print m w) = stdout w @ [m]"
  by (simp add: print_def)

lemma linalg_norm_nonneg: "0 \<le> linalg_norm v"
  by (auto simp: linalg_norm_def intro!: sum_list_nonneg)

lemma obliquity_norm_nonneg: "obliquity_norm a = Some n \<Longrightarrow> 0 \<le> n"
  by (auto simp: obliquity_norm_def linalg_norm_nonneg)

lemma skip_resampling_iff:
  "skip_resampling thr (obliquity_norm a)
     \<longleftrightarrow> (\<exists>t n. thr = Some t \<and> obliquity_norm a = Some n \<and> n < t)"
  using obliquity_norm_nonneg [of a]
  by (cases thr; cases "obliquity_norm a") (auto simp: skip_resampling_def)

lemma load_mask_stdout:
  "\<exists>ms. stdout (fst (load_mask w mask_file)) = stdout w @ ms
     \<and> Resampling_will_commence \<notin> set ms \<and> No_resampling_needed \<notin> set ms"
  by (auto simp: load_mask_def Let_def split: option.splits sum.splits)

lemma load_mask_files: "files (fst (load_mask w mask_file)) = files w"
  by (auto simp: load_mask_def Let_def split: option.splits sum.splits)

lemma load_mask_ok:
  "mask_loads w mask_file \<Longrightarrow> files w' = files w \<Longrightarrow> \<exists>mk. snd (load_mask w' mask_file) = Inr mk"
  by (auto simp: load_mask_def mask_loads_def nib_load_def Let_def split: option.splits sum.splits)

lemma nib_save_stdout: "nib_save ev img p w = Inr w' \<Longrightarrow> stdout w' = stdout w"
  by (auto simp: nib_save_def split: if_splits)

lemma save_results_stdout:
  "\<exists>ms. stdout (fst (save_results ev w mag_file pha_file mask_file rot)) = stdout w @ ms
     \<and> No_resampling_needed \<notin> set ms"
  by (auto simp: save_results_def Let_def dest!: nib_save_stdout
      split: prod.splits sum.splits option.splits)

lemma load_mask_absent:
  "mask_file = None \<or> mask_file = Some [] \<Longrightarrow> load_mask w mask_file = (w, Inr None)"
  by (auto simp: load_mask_def)

lemma load_mask_snd:
  "files w' = files w \<Longrightarrow> snd (load_mask w' mask_file) = snd (load_mask w mask_file)"
  by (auto simp: load_mask_def nib_load_def Let_def split: option.splits sum.splits)

lemma load_mask_loads: "snd (load_mask w mask_file) = Inr mk \<Longrightarrow> mask_loads w mask_file"
  by (auto simp: load_mask_def mask_loads_def Let_def split: option.splits sum.splits if_splits)

lemma resample_files_run:
  assumes "nib_load w mag_file = Inr mag_nii" "nib_load w pha_file = Inr pha_nii"
    and "snd (load_mask w mask_file) = Inr mask_nii"
  shows "\<exists>w3 ms. files w3 = files w \<and> stdout w3 = stdout w @ ms
      \<and> Resampling_will_commence \<notin> set ms \<and> No_resampling_needed \<notin> set ms
      \<and> resample_files ev w mag_file pha_file mask_file thr =
          (if skip_resampling thr (obliquity_norm (affine mag_nii))
           then (print No_resampling_needed w3, Inr (mag_file, pha_file, mask_file))
           else (case resample_to_axial ev mag_nii pha_nii mask_nii of
                   Inl e \<Rightarrow> (print Resampling_will_commence w3, Inl e)
                 | Inr rot \<Rightarrow> save_results ev (print Resampling_will_commence w3)
                     mag_file pha_file mask_file rot))"
proof -
  let ?w2 = "print (Loading_pha (basename pha_file)) (print (Loading_mag (basename mag_file)) w)"
  have f2: "files ?w2 = files w" by simp
  have mk: "snd (load_mask ?w2 mask_file) = Inr mask_nii"
    using load_mask_snd [OF f2] assms(3) by simp
  then obtain w3 where lm: "load_mask ?w2 mask_file = (w3, Inr mask_nii)"
    by (cases "load_mask ?w2 mask_file") simp
  obtain ms where ms: "stdout w3 = stdout ?w2 @ ms"
    "Resampling_will_commence \<notin> set ms" "No_resampling_needed \<notin> set ms"
    using load_mask_stdout [of ?w2 mask_file] by (auto simp: lm)
  have "files w3 = files w"
    using load_mask_files [of ?w2 mask_file] by (simp add: lm)
  moreover have "stdout w3 = stdout w
      @ ([Loading_mag (basename mag_file), Loading_pha (basename pha_file)] @ ms)"
    using ms(1) by simp
  moreover have "Resampling_will_commence \<notin>
      set ([Loading_mag (basename mag_file), Loading_pha (basename pha_file)] @ ms)"
    "No_resampling_needed \<notin>
      set ([Loading_mag (basename mag_file), Loading_pha (basename pha_file)] @ ms)"
    using ms(2,3) by simp_all
  moreover have "resample_files ev w mag_file pha_file mask_file thr =
          (if skip_resampling thr (obliquity_norm (affine mag_nii))
           then (print No_resampling_needed w3, Inr (mag_file, pha_file, mask_file))
           else (case resample_to_axial ev mag_nii pha_nii mask_nii of
                   Inl e \<Rightarrow> (print Resampling_will_commence w3, Inl e)
                 | Inr rot \<Rightarrow> save_results ev (print Resampling_will_commence w3)
                     mag_file pha_file mask_file rot))"
    unfolding resample_files_def Let_def
    by (simp only: nib_load_print assms(1,2) sum.case lm prod.case)
  ultimately show ?thesis by blast
qed

lemma resample_files_gate:
  assumes "nib_load w mag_file = Inr mag_nii" "nib_load w pha_file = Inr pha_nii"
    and "mask_loads w mask_file"
  shows "\<exists>w3 mask_nii ms. files w3 = files w \<and> stdout w3 = stdout w @ ms
      \<and> Resampling_will_commence \<notin> set ms \<and> No_resampling_needed \<notin> set ms
      \<and> (mask_file = None \<or> mask_file = Some [] \<longrightarrow> mask_nii = None)
      \<and> resample_files ev w mag_file pha_file mask_file thr =
          (if skip_resampling thr (obliquity_norm (affine mag_nii))
           then (print No_resampling_needed w3, Inr (mag_file, pha_file, mask_file))
           else (case resample_to_axial ev mag_nii pha_nii mask_nii of
                   Inl e \<Rightarrow> (print Resampling_will_commence w3, Inl e)
                 | Inr rot \<Rightarrow> save_results ev (print Resampling_will_commence w3)
                     mag_file pha_file mask_file rot))"
proof -
  obtain mk where mk: "snd (load_mask w mask_file) = Inr mk"
    using load_mask_ok [OF assms(3) refl] by blast
  have "mask_file = None \<or> mask_file = Some [] \<longrightarrow> mk = None"
    using mk by (auto simp: load_mask_absent)
  with resample_files_run [OF assms(1,2) mk, of ev thr] show ?thesis by blast
qed

lemma gate_decision:
  assumes "nib_load w mag_file = Inr mag_nii" "nib_load w pha_file = Inr pha_nii"
    and "mask_loads w mask_file"
  shows "skip_resampling thr (obliquity_norm (affine mag_nii)) \<Longrightarrow>
           skipped w (mag_file, pha_file, mask_file)
             (resample_files ev w mag_file pha_file mask_file thr)"
    and "\<not> skip_resampling thr (obliquity_norm (affine mag_nii)) \<Longrightarrow>
           commenced w (resample_files ev w mag_file pha_file mask_file thr)"
proof -
  let ?r = "resample_files ev w mag_file pha_file mask_file thr"
  from resample_files_gate [OF assms, of ev thr] obtain w3 mask_nii ms where
    w3: "files w3 = files w" "stdout w3 = stdout w @ ms"
      "Resampling_will_commence \<notin> set ms" "No_resampling_needed \<notin> set ms"
    and r: "?r = (if skip_resampling thr (obliquity_norm (affine mag_nii))
           then (print No_resampling_needed w3, Inr (mag_file, pha_file, mask_file))
           else (case resample_to_axial ev mag_nii pha_nii mask_nii of
                   Inl e \<Rightarrow> (print Resampling_will_commence w3, Inl e)
                 | Inr rot \<Rightarrow> save_results ev (print Resampling_will_commence w3)
                     mag_file pha_file mask_file rot))"
    by blast
  show "skipped w (mag_file, pha_file, mask_file) ?r"
    if "skip_resampling thr (obliquity_norm (affine mag_nii))"
  proof -
    from that r have "?r = (print No_resampling_needed w3, Inr (mag_file, pha_file, mask_file))"
      by simp
    then show ?thesis using w3 by (simp add: skipped_def printed_def)
  qed
  show "commenced w ?r" if n: "\<not> skip_resampling thr (obliquity_norm (affine mag_nii))"
  proof -
    have "\<exists>ms'. stdout (fst ?r) = stdout w @ ms @ [Resampling_will_commence] @ ms'
        \<and> No_resampling_needed \<notin> set ms'"
    proof (cases "resample_to_axial ev mag_nii pha_nii mask_nii")
      case (Inl e)
      with n r w3 show ?thesis by simp
    next
      case (Inr rot)
      with n r have "?r = save_results ev (print Resampling_will_commence w3)
          mag_file pha_file mask_file rot" by simp
      then show ?thesis
        using save_results_stdout [of ev "print Resampling_will_commence w3"
            mag_file pha_file mask_file rot] w3 by auto
    qed
    then show ?thesis using w3 by (auto simp: commenced_def printed_def)
  qed
qed

lemma skipped_not_commenced: "skipped w orig r \<Longrightarrow> \<not> commenced w r"
  by (simp add: skipped_def commenced_def)

lemma resample_to_axial_no_mask:
  "resample_to_axial ev mag_nii pha_nii None = Inr (m, p, k) \<Longrightarrow> k = None"
  by (auto simp: resample_to_axial_def resample_mask_def split: sum.splits prod.splits)

lemma load_mask_some:
  assumes "snd (load_mask w mask_file) = Inr (Some mk)"
  shows "\<exists>mf. mask_file = Some mf"
  using assms by (cases mask_file) (simp_all add: load_mask_def)

text \<open>What \<open>save_results\<close> leaves behind: the images it was given, under the resampled
  names, and those names as its result; it fails only when a file cannot be written.\<close>

lemma save_results_saved:
  assumes "k \<noteq> None \<longrightarrow> (\<exists>mf. mask_file = Some mf)"
  shows "(\<forall>out. snd (save_results ev w0 mag_file pha_file mask_file (m, p, k)) = Inr out \<longrightarrow>
            (\<exists>pre third.
               out = (resampled_fname ev mag_file, resampled_fname ev pha_file, third)
               \<and> files (fst (save_results ev w0 mag_file pha_file mask_file (m, p, k)))
                   = pre @ [(resampled_fname ev pha_file, p), (resampled_fname ev mag_file, m)]
                       @ files w0
               \<and> (case k of
                      None \<Rightarrow> pre = [] \<and> third = Some ''placeholder''
                    | Some mk \<Rightarrow>
                        (\<exists>mf. mask_file = Some mf \<and> pre = [(resampled_fname ev mf, mk)]
                           \<and> third = Some (resampled_fname ev mf)))))
       \<and> (\<forall>e. snd (save_results ev w0 mag_file pha_file mask_file (m, p, k)) = Inl e \<longrightarrow>
              e = SaveError)
       \<and> (can_save ev (resampled_fname ev mag_file) \<and> can_save ev (resampled_fname ev pha_file)
            \<and> (\<forall>mf. mask_file = Some mf \<longrightarrow> can_save ev (resampled_fname ev mf))
          \<longrightarrow> (\<exists>out. snd (save_results ev w0 mag_file pha_file mask_file (m, p, k)) = Inr out))"
  using assms
  by (cases k; cases mask_file)
    (auto simp: save_results_def Let_def nib_save_def)

text \<open>
  C2. For every call of \<open>resample_files\<close> whose input files load: the call returns the
  paths it was given and writes no file if and only if a threshold was supplied and the norm
  of the obliquity (in degrees) of the magnitude image's affine is strictly less than it;
  it then prints that no resampling is needed. In every other case, and so whenever no
  threshold is supplied, it prints that resampling will commence and calls
  \<open>resample_to_axial\<close> on the loaded images: an error of that call ends it with no file
  written; when \<open>resample_to_axial\<close> returns, the magnitude and phase it returned (and the
  mask, when there is one) are written under the resampled names and those names are
  returned, the call failing only when a file cannot be written.
\<close>

theorem gate_skips_iff:
  assumes "nib_load w mag_file = Inr mag_nii" "nib_load w pha_file = Inr pha_nii"
    and "snd (load_mask w mask_file) = Inr mask_nii"
  shows
  "let r = resample_files ev w mag_file pha_file mask_file thr;
       below = (\<exists>t n. thr = Some t \<and> obliquity_norm (affine mag_nii) = Some n \<and> n < t)
   in (snd r = Inr (mag_file, pha_file, mask_file) \<and> files (fst r) = files w \<longleftrightarrow> below)
      \<and> (below \<longrightarrow> skipped w (mag_file, pha_file, mask_file) r)
      \<and> (thr = None \<longrightarrow> \<not> below)
      \<and> (\<not> below \<longrightarrow>
            commenced w r
            \<and> (case resample_to_axial ev mag_nii pha_nii mask_nii of
                  Inl e \<Rightarrow> snd r = Inl e \<and> files (fst r) = files w
                | Inr (m, p, k) \<Rightarrow>
                    (\<forall>out. snd r = Inr out \<longrightarrow>
                       (\<exists>pre third.
                          out = (resampled_fname ev mag_file, resampled_fname ev pha_file, third)
                          \<and> files (fst r)
                              = pre @ [(resampled_fname ev pha_file, p),
                                       (resampled_fname ev mag_file, m)] @ files w
                          \<and> (case k of
                                 None \<Rightarrow> pre = [] \<and> third = Some ''placeholder''
                               | Some mk \<Rightarrow>
                                   (\<exists>mf. mask_file = Some mf
                                      \<and> pre = [(resampled_fname ev mf, mk)]
                                      \<and> third = Some (resampled_fname ev mf)))))
                    \<and> (\<forall>e. snd r = Inl e \<longrightarrow> e = SaveError)
                    \<and> (can_save ev (resampled_fname ev mag_file)
                         \<and> can_save ev (resampled_fname ev pha_file)
                         \<and> (\<forall>mf. mask_file = Some mf \<longrightarrow> can_save ev (resampled_fname ev mf))
                       \<longrightarrow> (\<exists>out. snd r = Inr out))))"
proof -
  let ?r = "resample_files ev w mag_file pha_file mask_file thr"
  let ?below = "\<exists>t n. thr = Some t \<and> obliquity_norm (affine mag_nii) = Some n \<and> n < t"
  note ml = load_mask_loads [OF assms(3)]
  from resample_files_run [OF assms, of ev thr] obtain w3 ms where
    w3: "files w3 = files w"
    and r: "?r = (if skip_resampling thr (obliquity_norm (affine mag_nii))
           then (print No_resampling_needed w3, Inr (mag_file, pha_file, mask_file))
           else (case resample_to_axial ev mag_nii pha_nii mask_nii of
                   Inl e \<Rightarrow> (print Resampling_will_commence w3, Inl e)
                 | Inr rot \<Rightarrow> save_results ev (print Resampling_will_commence w3)
                     mag_file pha_file mask_file rot))"
    by blast
  have none: "thr = None \<longrightarrow> \<not> ?below" by simp
  show ?thesis
  proof (cases "skip_resampling thr (obliquity_norm (affine mag_nii))")
    case True
    then have b: ?below by (simp add: skip_resampling_iff)
    from True r have "?r = (print No_resampling_needed w3, Inr (mag_file, pha_file, mask_file))"
      by simp
    then have "snd ?r = Inr (mag_file, pha_file, mask_file)" "files (fst ?r) = files w"
      using w3 by simp_all
    with b gate_decision(1) [OF assms(1,2) ml True, of ev] none show ?thesis
      unfolding Let_def by blast
  next
    case False
    then have nb: "\<not> ?below" by (simp add: skip_resampling_iff)
    note c = gate_decision(2) [OF assms(1,2) ml False, of ev]
    let ?w4 = "print Resampling_will_commence w3"
    have f4: "files ?w4 = files w" using w3 by simp
    let ?run = "(case resample_to_axial ev mag_nii pha_nii mask_nii of
                  Inl e \<Rightarrow> snd ?r = Inl e \<and> files (fst ?r) = files w
                | Inr (m, p, k) \<Rightarrow>
                    (\<forall>out. snd ?r = Inr out \<longrightarrow>
                       (\<exists>pre third.
                          out = (resampled_fname ev mag_file, resampled_fname ev pha_file, third)
                          \<and> files (fst ?r)
                              = pre @ [(resampled_fname ev pha_file, p),
                                       (resampled_fname ev mag_file, m)] @ files w
                          \<and> (case k of
                                 None \<Rightarrow> pre = [] \<and> third = Some ''placeholder''
                               | Some mk \<Rightarrow>
                                   (\<exists>mf. mask_file = Some mf
                                      \<and> pre = [(resampled_fname ev mf, mk)]
                                      \<and> third = Some (resampled_fname ev mf)))))
                    \<and> (\<forall>e. snd ?r = Inl e \<longrightarrow> e = SaveError)
                    \<and> (can_save ev (resampled_fname ev mag_file)
                         \<and> can_save ev (resampled_fname ev pha_file)
                         \<and> (\<forall>mf. mask_file = Some mf \<longrightarrow> can_save ev (resampled_fname ev mf))
                       \<longrightarrow> (\<exists>out. snd ?r = Inr out)))"
    let ?same = "snd ?r = Inr (mag_file, pha_file, mask_file) \<and> files (fst ?r) = files w"
    have both: "?run \<and> \<not> ?same"
    proof (cases "resample_to_axial ev mag_nii pha_nii mask_nii")
      case (Inl e)
      with False r have "?r = (?w4, Inl e)" by simp
      then have e: "snd ?r = Inl e" "files (fst ?r) = files w" using w3 by simp_all
      with Inl have ?run by simp
      moreover from e have "\<not> ?same" by simp
      ultimately show ?thesis ..
    next
      case (Inr rot)
      obtain m p k where rot: "rot = (m, p, k)" by (cases rot)
      have km: "k \<noteq> None \<longrightarrow> (\<exists>mf. mask_file = Some mf)"
      proof (cases mask_nii)
        case None
        with Inr rot show ?thesis using resample_to_axial_no_mask by blast
      next
        case (Some mk)
        with assms(3) show ?thesis using load_mask_some by blast
      qed
      from False r Inr rot
      have rr: "?r = save_results ev ?w4 mag_file pha_file mask_file (m, p, k)" by simp
      note sv = save_results_saved [OF km, of ev ?w4 mag_file pha_file m p,
          folded rr, unfolded f4]
      from sv Inr rot have ?run
        by (simp only: sum.case prod.case)
      moreover have "\<not> ?same"
      proof
        assume a: ?same
        with sv obtain pre where "files (fst ?r)
            = pre @ [(resampled_fname ev pha_file, p), (resampled_fname ev mag_file, m)] @ files w"
          by blast
        then have "length (files (fst ?r)) = length pre + 2 + length (files w)" by simp
        with a show False by simp
      qed
      ultimately show ?thesis ..
    qed
    from nb c both none show ?thesis unfolding Let_def by blast
  qed
qed

lemma diagonal_obliquity:
  assumes "\<forall>i<3. \<forall>j<3. i \<noteq> j \<longrightarrow> a ! i ! j = 0" "\<forall>i<3. 0 < a ! i ! i"
  shows "obliquity_norm a = Some 0"
proof -
  have z: "a ! 0 ! Suc 0 = 0" "a ! 0 ! 2 = 0" "a ! Suc 0 ! 0 = 0" "a ! Suc 0 ! 2 = 0"
    "a ! 2 ! 0 = 0" "a ! 2 ! Suc 0 = 0"
    using assms(1) by simp_all
  have p: "0 < a ! 0 ! 0" "0 < a ! Suc 0 ! Suc 0" "0 < a ! 2 ! 2"
    using assms(2) by simp_all
  have vs: "voxel_sizes a = [a ! 0 ! 0, a ! Suc 0 ! Suc 0, a ! 2 ! 2]"
    using p by (simp add: voxel_sizes_def z)
  have "obliquity a = Some [0, 0, 0]"
    using p by (simp add: obliquity_def vs z)
  then show ?thesis
    by (simp add: obliquity_norm_def linalg_norm_def rad2deg_def)
qed

lemma example_world_loads:
  "nib_load example_world ''/data/mag.nii.gz'' = Inr (volume [64, 64, 64] 100 Int16 diag2 [2, 2, 2])"
  "nib_load example_world ''/data/phase.nii.gz''
     = Inr (volume [64, 64, 64] (1 / 2) Float32 diag2 [2, 2, 2])"
  "mask_loads example_world None"
  by (simp_all add: nib_load_def example_world_def mask_loads_def)

lemma other_world_loads:
  "nib_load other_world ''m.nii'' = Inr (volume [2, 2, 2] 7 UInt8 diag2 [2, 2, 2])"
  "nib_load other_world ''p.nii'' = Inr (volume [2, 2, 2] 0 Float64 diag2 [2, 2, 2])"
  "mask_loads other_world (Some [])"
  by (simp_all add: nib_load_def other_world_def mask_loads_def)

lemma diag2_diagonal:
  "\<forall>i<3. \<forall>j<3. i \<noteq> j \<longrightarrow> diag2 ! i ! j = 0" "\<forall>i<3. 0 < diag2 ! i ! i"
  by (simp_all add: all_less_3 diag2_def numeral_2_eq_2)

lemma affine_volume [simp]: "affine (volume shp v dt a zs) = a"
  by (simp add: volume_def)

lemma example_world_mask: "snd (load_mask example_world None) = Inr None"
  by (simp add: load_mask_def)

theorem gate_skips_iff_witness:
  "nib_load example_world ''/data/mag.nii.gz'' = Inr (volume [64, 64, 64] 100 Int16 diag2 [2, 2, 2])
   \<and> nib_load example_world ''/data/phase.nii.gz''
       = Inr (volume [64, 64, 64] (1 / 2) Float32 diag2 [2, 2, 2])
   \<and> snd (load_mask example_world None) = Inr None
   \<and> obliquity_norm (affine (volume [64, 64, 64] 100 Int16 diag2 [2, 2, 2])) = Some 0
   \<and> skipped example_world (''/data/mag.nii.gz'', ''/data/phase.nii.gz'', None)
       (resample_files example_env example_world ''/data/mag.nii.gz'' ''/data/phase.nii.gz''
          None (Some 10))
   \<and> commenced example_world
       (resample_files example_env example_world ''/data/mag.nii.gz'' ''/data/phase.nii.gz''
          None None)
   \<and> (\<exists>m p. resample_to_axial example_env (volume [64, 64, 64] 100 Int16 diag2 [2, 2, 2])
                (volume [64, 64, 64] (1 / 2) Float32 diag2 [2, 2, 2]) None = Inr (m, p, None)
          \<and> resample_files example_env example_world ''/data/mag.nii.gz''
                ''/data/phase.nii.gz'' None None
              = (example_world
                   \<lparr>files := [(''/work/phase_resampled.nii.gz'', p),
                              (''/work/mag_resampled.nii.gz'', m)] @ files example_world,
                    stdout := stdout (fst (resample_files example_env example_world
                                ''/data/mag.nii.gz'' ''/data/phase.nii.gz'' None None))\<rparr>,
                 Inr (''/work/mag_resampled.nii.gz'', ''/work/phase_resampled.nii.gz'',
                      Some ''placeholder'')))"
proof -
  let ?m = "volume [64, 64, 64] 100 Int16 diag2 [2, 2, 2]"
  let ?p = "volume [64, 64, 64] (1 / 2) Float32 diag2 [2, 2, 2]"
  let ?r = "resample_files example_env example_world ''/data/mag.nii.gz''
      ''/data/phase.nii.gz'' None None"
  have n: "obliquity_norm (affine ?m) = Some 0"
    using diag2_diagonal by (simp add: diagonal_obliquity)
  then have b: "\<exists>t n. Some (10::real) = Some t \<and> obliquity_norm (affine ?m) = Some n \<and> n < t"
    by simp
  note l = example_world_loads(1,2) example_world_mask
  from gate_skips_iff [OF l, of example_env "Some 10"] b
  have s: "skipped example_world (''/data/mag.nii.gz'', ''/data/phase.nii.gz'', None)
       (resample_files example_env example_world ''/data/mag.nii.gz'' ''/data/phase.nii.gz''
          None (Some 10))"
    unfolding Let_def by blast
  note g = gate_skips_iff [OF l, of example_env None, unfolded Let_def]
  from g have c: "commenced example_world ?r" by blast
  from example_resample_to_axial obtain rot where
    "resample_to_axial example_env ?m ?p None = Inr rot" ..
  moreover obtain m p k where "rot = (m, p, k)" by (cases rot)
  ultimately have rta: "resample_to_axial example_env ?m ?p None = Inr (m, p, None)"
    using resample_to_axial_no_mask by blast
  have names: "resampled_fname example_env ''/data/mag.nii.gz'' = ''/work/mag_resampled.nii.gz''"
    "resampled_fname example_env ''/data/phase.nii.gz'' = ''/work/phase_resampled.nii.gz''"
    by (simp_all add: resampled_fname_def example_env_def basename_def before_dot_def
        after_dot_def)
  from g have "case resample_to_axial example_env ?m ?p None of
      Inl e \<Rightarrow> snd ?r = Inl e \<and> files (fst ?r) = files example_world
    | Inr (m, p, k) \<Rightarrow>
        (\<forall>out. snd ?r = Inr out \<longrightarrow>
           (\<exists>pre third.
              out = (resampled_fname example_env ''/data/mag.nii.gz'',
                     resampled_fname example_env ''/data/phase.nii.gz'', third)
              \<and> files (fst ?r)
                  = pre @ [(resampled_fname example_env ''/data/phase.nii.gz'', p),
                           (resampled_fname example_env ''/data/mag.nii.gz'', m)]
                      @ files example_world
              \<and> (case k of
                     None \<Rightarrow> pre = [] \<and> third = Some ''placeholder''
                   | Some mk \<Rightarrow>
                       (\<exists>mf. (None :: string option) = Some mf
                          \<and> pre = [(resampled_fname example_env mf, mk)]
                          \<and> third = Some (resampled_fname example_env mf)))))
        \<and> (\<forall>e. snd ?r = Inl e \<longrightarrow> e = SaveError)
        \<and> (can_save example_env (resampled_fname example_env ''/data/mag.nii.gz'')
             \<and> can_save example_env (resampled_fname example_env ''/data/phase.nii.gz'')
             \<and> (\<forall>mf. (None :: string option) = Some mf
                    \<longrightarrow> can_save example_env (resampled_fname example_env mf))
           \<longrightarrow> (\<exists>out. snd ?r = Inr out))"
    by blast
  then have sv: "(\<forall>out. snd ?r = Inr out \<longrightarrow>
           (\<exists>pre third.
              out = (''/work/mag_resampled.nii.gz'', ''/work/phase_resampled.nii.gz'', third)
              \<and> files (fst ?r)
                  = pre @ [(''/work/phase_resampled.nii.gz'', p),
                           (''/work/mag_resampled.nii.gz'', m)] @ files example_world
              \<and> pre = [] \<and> third = Some ''placeholder''))"
    and ok: "\<exists>out. snd ?r = Inr out"
    unfolding rta names by (simp_all add: example_env_can_save)
  from ok obtain out where out: "snd ?r = Inr out" ..
  with sv have "snd ?r = Inr (''/work/mag_resampled.nii.gz'', ''/work/phase_resampled.nii.gz'',
        Some ''placeholder'')"
    and "files (fst ?r) = [(''/work/phase_resampled.nii.gz'', p),
        (''/work/mag_resampled.nii.gz'', m)] @ files example_world"
    by auto
  then have "?r = (example_world
       \<lparr>files := [(''/work/phase_resampled.nii.gz'', p),
                  (''/work/mag_resampled.nii.gz'', m)] @ files example_world,
        stdout := stdout (fst ?r)\<rparr>,
     Inr (''/work/mag_resampled.nii.gz'', ''/work/phase_resampled.nii.gz'',
          Some ''placeholder''))"
    by (cases ?r) (auto simp: world.equality)
  with rta have "\<exists>m p. resample_to_axial example_env ?m ?p None = Inr (m, p, None)
      \<and> ?r = (example_world
           \<lparr>files := [(''/work/phase_resampled.nii.gz'', p),
                      (''/work/mag_resampled.nii.gz'', m)] @ files example_world,
            stdout := stdout (fst ?r)\<rparr>,
         Inr (''/work/mag_resampled.nii.gz'', ''/work/phase_resampled.nii.gz'',
              Some ''placeholder''))"
    by blast
  with l n s c show ?thesis by blast
qed

text \<open>
  C3. The decision of the gate depends only on the magnitude image's affine and on the
  threshold: two calls that agree on both take the same decision, whatever the file system,
  the paths, the voxel data, the mask and the libraries; every call either skips or
  commences. For an affine whose 3 by 3 block is diagonal with positive entries the norm of
  the obliquity is 0, and the gate skips for every strictly positive threshold.
\<close>

theorem gate_deterministic:
  assumes "nib_load w mag_file = Inr mag_nii" "nib_load w pha_file = Inr pha_nii"
    and "mask_loads w mask_file"
    and "nib_load w' mag_file' = Inr mag_nii'" "nib_load w' pha_file' = Inr pha_nii'"
    and "mask_loads w' mask_file'"
    and "affine mag_nii' = affine mag_nii"
  shows "(skipped w (mag_file, pha_file, mask_file)
            (resample_files ev w mag_file pha_file mask_file thr)
          \<longleftrightarrow> skipped w' (mag_file', pha_file', mask_file')
            (resample_files ev' w' mag_file' pha_file' mask_file' thr))
       \<and> (skipped w (mag_file, pha_file, mask_file)
            (resample_files ev w mag_file pha_file mask_file thr)
          \<longleftrightarrow> \<not> commenced w (resample_files ev w mag_file pha_file mask_file thr))
       \<and> ((\<forall>i<3. \<forall>j<3. i \<noteq> j \<longrightarrow> affine mag_nii ! i ! j = 0)
            \<and> (\<forall>i<3. 0 < affine mag_nii ! i ! i)
          \<longrightarrow> obliquity_norm (affine mag_nii) = Some 0
              \<and> (\<forall>t>0. thr = Some t \<longrightarrow>
                    skipped w (mag_file, pha_file, mask_file)
                      (resample_files ev w mag_file pha_file mask_file thr)))"
proof -
  let ?d = "skip_resampling thr (obliquity_norm (affine mag_nii))"
  let ?r = "resample_files ev w mag_file pha_file mask_file thr"
  let ?r' = "resample_files ev' w' mag_file' pha_file' mask_file' thr"
  have one: "skipped w (mag_file, pha_file, mask_file) ?r \<longleftrightarrow> ?d"
    and com: "commenced w ?r \<longleftrightarrow> \<not> ?d"
    using gate_decision [OF assms(1-3), of thr ev] skipped_not_commenced by blast+
  have two: "skipped w' (mag_file', pha_file', mask_file') ?r' \<longleftrightarrow> ?d"
    using gate_decision [OF assms(4-6), of thr ev'] skipped_not_commenced
    unfolding assms(7) by blast
  have diag: "obliquity_norm (affine mag_nii) = Some 0
      \<and> (\<forall>t>0. thr = Some t \<longrightarrow> skipped w (mag_file, pha_file, mask_file) ?r)"
    if "\<forall>i<3. \<forall>j<3. i \<noteq> j \<longrightarrow> affine mag_nii ! i ! j = 0" "\<forall>i<3. 0 < affine mag_nii ! i ! i"
  proof -
    have n: "obliquity_norm (affine mag_nii) = Some 0"
      using that by (rule diagonal_obliquity)
    then have "?d" if "thr = Some t" "0 < t" for t
      using that by (simp add: skip_resampling_def)
    with n one show ?thesis by blast
  qed
  from one two com diag show ?thesis by blast
qed

theorem gate_deterministic_witness:
  "nib_load example_world ''/data/mag.nii.gz'' = Inr (volume [64, 64, 64] 100 Int16 diag2 [2, 2, 2])
   \<and> nib_load other_world ''m.nii'' = Inr (volume [2, 2, 2] 7 UInt8 diag2 [2, 2, 2])
   \<and> affine (volume [2, 2, 2] 7 UInt8 diag2 [2, 2, 2])
       = affine (volume [64, 64, 64] 100 Int16 diag2 [2, 2, 2])
   \<and> obliquity_norm (affine (volume [64, 64, 64] 100 Int16 diag2 [2, 2, 2])) = Some 0
   \<and> skipped example_world (''/data/mag.nii.gz'', ''/data/phase.nii.gz'', None)
       (resample_files example_env example_world ''/data/mag.nii.gz'' ''/data/phase.nii.gz''
          None (Some 10))
   \<and> skipped other_world (''m.nii'', ''p.nii'', Some [])
       (resample_files example_env other_world ''m.nii'' ''p.nii'' (Some []) (Some 10))"
proof -
  let ?m = "volume [64, 64, 64] 100 Int16 diag2 [2, 2, 2]"
  have a: "affine (volume [2, 2, 2] 7 UInt8 diag2 [2, 2, 2]) = affine ?m"
    by simp
  have d: "(\<forall>i<3. \<forall>j<3. i \<noteq> j \<longrightarrow> affine ?m ! i ! j = 0) \<and> (\<forall>i<3. 0 < affine ?m ! i ! i)"
    using diag2_diagonal by simp
  note g = gate_deterministic [OF example_world_loads other_world_loads a,
      of example_env "Some 10" example_env]
  from g d have n: "obliquity_norm (affine ?m) = Some 0" by blast
  from g d have "\<forall>t>0. Some (10::real) = Some t \<longrightarrow>
      skipped example_world (''/data/mag.nii.gz'', ''/data/phase.nii.gz'', None)
       (resample_files example_env example_world ''/data/mag.nii.gz'' ''/data/phase.nii.gz''
          None (Some 10))"
    by blast
  then have s1: "skipped example_world (''/data/mag.nii.gz'', ''/data/phase.nii.gz'', None)
       (resample_files example_env example_world ''/data/mag.nii.gz'' ''/data/phase.nii.gz''
          None (Some 10))"
    by simp
  with g have s2: "skipped other_world (''m.nii'', ''p.nii'', Some [])
       (resample_files example_env other_world ''m.nii'' ''p.nii'' (Some []) (Some 10))"
    by blast
  from example_world_loads(1) other_world_loads(1) a n s1 s2 show ?thesis by blast
qed

subsection \<open>The mask path when no mask is given\<close>

lemma mask_loads_absent: "mask_file = None \<or> mask_file = Some [] \<Longrightarrow> mask_loads w mask_file"
  by (auto simp: mask_loads_def)

lemma save_results_no_mask:
  "save_results ev w mag_file pha_file mask_file (m, p, None) = (w', Inr r)
     \<Longrightarrow> r = (resampled_fname ev mag_file, resampled_fname ev pha_file, Some ''placeholder'')"
  by (auto simp: save_results_def Let_def split: sum.splits)

lemma save_results_no_mask_ok:
  assumes "can_save ev (resampled_fname ev mag_file)" "can_save ev (resampled_fname ev pha_file)"
  shows "snd (save_results ev w mag_file pha_file mask_file (m, p, None))
     = Inr (resampled_fname ev mag_file, resampled_fname ev pha_file, Some ''placeholder'')"
  using assms by (simp add: save_results_def Let_def nib_save_def)

text \<open>
  C10. In a call of \<open>resample_files\<close> with no mask file (\<open>None\<close> or the empty string) in
  which the gate does not skip, every triple the call returns has the string
  \<open>placeholder\<close> as its third element; the call returns such a triple whenever
  \<open>resample_to_axial\<close> returns and the two output files can be written.
\<close>

theorem placeholder_without_mask:
  assumes "mask_file = None \<or> mask_file = Some []"
    and "nib_load w mag_file = Inr mag_nii" "nib_load w pha_file = Inr pha_nii"
    and "\<not> skip_resampling thr (obliquity_norm (affine mag_nii))"
  shows "(\<forall>w' r. resample_files ev w mag_file pha_file mask_file thr = (w', Inr r)
            \<longrightarrow> r = (resampled_fname ev mag_file, resampled_fname ev pha_file,
                      Some ''placeholder''))
       \<and> ((\<exists>rot. resample_to_axial ev mag_nii pha_nii None = Inr rot)
            \<and> can_save ev (resampled_fname ev mag_file)
            \<and> can_save ev (resampled_fname ev pha_file)
          \<longrightarrow> snd (resample_files ev w mag_file pha_file mask_file thr)
                = Inr (resampled_fname ev mag_file, resampled_fname ev pha_file,
                       Some ''placeholder''))"
proof -
  let ?r = "resample_files ev w mag_file pha_file mask_file thr"
  from resample_files_gate [OF assms(2,3) mask_loads_absent [OF assms(1)], of ev thr] assms(1,4)
  obtain w3 where
    r: "?r = (case resample_to_axial ev mag_nii pha_nii None of
                Inl e \<Rightarrow> (print Resampling_will_commence w3, Inl e)
              | Inr rot \<Rightarrow> save_results ev (print Resampling_will_commence w3)
                  mag_file pha_file mask_file rot)"
    by auto
  have "r' = (resampled_fname ev mag_file, resampled_fname ev pha_file, Some ''placeholder'')"
    if "?r = (w', Inr r')" for w' r'
  proof (cases "resample_to_axial ev mag_nii pha_nii None")
    case (Inl e)
    with r that show ?thesis by simp
  next
    case (Inr rot)
    obtain m p k where rot: "rot = (m, p, k)" by (cases rot)
    with Inr have "k = None" by (auto dest: resample_to_axial_no_mask)
    with r that Inr rot
    have "save_results ev (print Resampling_will_commence w3) mag_file pha_file mask_file
        (m, p, None) = (w', Inr r')"
      by simp
    then show ?thesis by (rule save_results_no_mask)
  qed
  moreover have "snd ?r
      = Inr (resampled_fname ev mag_file, resampled_fname ev pha_file, Some ''placeholder'')"
    if "resample_to_axial ev mag_nii pha_nii None = Inr rot"
      "can_save ev (resampled_fname ev mag_file)" "can_save ev (resampled_fname ev pha_file)"
    for rot
  proof -
    obtain m p k where rot: "rot = (m, p, k)" by (cases rot)
    with that(1) have "k = None" by (auto dest: resample_to_axial_no_mask)
    with r that rot show ?thesis
      by (simp add: save_results_no_mask_ok)
  qed
  ultimately show ?thesis by blast
qed

subsection \<open>A run without a mask\<close>

theorem placeholder_without_mask_witness:
  "nib_load example_world ''/data/mag.nii.gz'' = Inr (volume [64, 64, 64] 100 Int16 diag2 [2, 2, 2])
   \<and> nib_load example_world ''/data/phase.nii.gz''
       = Inr (volume [64, 64, 64] (1 / 2) Float32 diag2 [2, 2, 2])
   \<and> \<not> skip_resampling None (obliquity_norm (affine (volume [64, 64, 64] 100 Int16 diag2 [2, 2, 2])))
   \<and> snd (resample_files example_env example_world ''/data/mag.nii.gz'' ''/data/phase.nii.gz''
            None None)
       = Inr (''/work/mag_resampled.nii.gz'', ''/work/phase_resampled.nii.gz'', Some ''placeholder'')"
proof -
  have ns: "\<not> skip_resampling None
      (obliquity_norm (affine (volume [64, 64, 64] 100 Int16 diag2 [2, 2, 2])))"
    by (simp add: skip_resampling_def)
  have nm: "(None :: string option) = None \<or> None = Some []" by simp
  from placeholder_without_mask [OF nm example_world_loads(1,2) ns, of example_env]
    example_resample_to_axial example_env_can_save
  have "snd (resample_files example_env example_world ''/data/mag.nii.gz''
      ''/data/phase.nii.gz'' None None)
    = Inr (resampled_fname example_env ''/data/mag.nii.gz'',
           resampled_fname example_env ''/data/phase.nii.gz'', Some ''placeholder'')"
    by blast
  moreover have "resampled_fname example_env ''/data/mag.nii.gz'' = ''/work/mag_resampled.nii.gz''"
    "resampled_fname example_env ''/data/phase.nii.gz'' = ''/work/phase_resampled.nii.gz''"
    by (simp_all add: resampled_fname_def example_env_def basename_def before_dot_def
        after_dot_def)
  ultimately show ?thesis using example_world_loads(1,2) ns by simp
qed

subsection \<open>\<open>resample_like\<close>\<close>

lemma resample_onto_grid:
  assumes "resample_onto sm img a (Some s) i = Inr out"
  shows "affine out = a \<and> take 3 (shape (dataobj out)) = s"
  using assms
  by (auto simp: resample_onto_def Let_def split: if_splits)

text \<open>
  C7. Let the source and the reference load, and let the resampling library return, for a
  given target affine and target shape, an image on that grid (that affine, and that shape
  on its three spatial axes). If the two affines are equal element by element,
  \<open>resample_like\<close> returns the source path and leaves the file system as it was, whatever
  the library is. Otherwise the library is asked for the reference's affine and shape: when
  it raises, so does \<open>resample_like\<close>; when it returns, the output has the reference's
  affine and shape and is what the returned path holds (or the save raises).
\<close>

theorem resample_like_contract:
  assumes "nib_load w in_file = Inr in_nii" "nib_load w in_like = Inr in_like_nii"
    and "\<forall>img a s i out. resample_img ev img a (Some s) i = Inr out
           \<longrightarrow> affine out = a \<and> take 3 (shape (dataobj out)) = s"
  shows "(affine in_nii = affine in_like_nii
            \<longrightarrow> resample_like ev w in_file in_like interpolation = (w, Inr in_file))
       \<and> (affine in_nii \<noteq> affine in_like_nii \<longrightarrow>
            (case resample_img ev in_nii (affine in_like_nii)
                    (Some (data_shape (header in_like_nii))) interpolation of
               Inl e \<Rightarrow> resample_like ev w in_file in_like interpolation = (w, Inl e)
             | Inr out \<Rightarrow>
                 affine out = affine in_like_nii
                 \<and> take 3 (shape (dataobj out)) = data_shape (header in_like_nii)
                 \<and> (if can_save ev (resampled_fname ev in_file)
                     then \<exists>w'. resample_like ev w in_file in_like interpolation
                                  = (w', Inr (resampled_fname ev in_file))
                            \<and> nib_load w' (resampled_fname ev in_file) = Inr out
                     else resample_like ev w in_file in_like interpolation
                            = (w, Inl SaveError))))"
proof (cases "affine in_nii = affine in_like_nii")
  case True
  with assms(1,2) show ?thesis by (simp add: resample_like_def)
next
  case False
  show ?thesis
  proof (cases "resample_img ev in_nii (affine in_like_nii)
      (Some (data_shape (header in_like_nii))) interpolation")
    case (Inl e)
    with False assms(1,2) show ?thesis by (simp add: resample_like_def)
  next
    case (Inr out)
    from assms(3) [rule_format, OF Inr] have g: "affine out = affine in_like_nii"
      "take 3 (shape (dataobj out)) = data_shape (header in_like_nii)"
      by simp_all
    have "resample_like ev w in_file in_like interpolation
        = (case nib_save ev out (resampled_fname ev in_file) w of
             Inl e \<Rightarrow> (w, Inl e)
           | Inr w' \<Rightarrow> (w', Inr (resampled_fname ev in_file)))"
      using False assms(1,2) Inr by (simp add: resample_like_def Let_def)
    then have "if can_save ev (resampled_fname ev in_file)
        then \<exists>w'. resample_like ev w in_file in_like interpolation
                     = (w', Inr (resampled_fname ev in_file))
               \<and> nib_load w' (resampled_fname ev in_file) = Inr out
        else resample_like ev w in_file in_like interpolation = (w, Inl SaveError)"
      by (simp add: nib_save_def nib_load_def)
    with False Inr g show ?thesis by simp
  qed
qed

lemma det3_shifted: "det3 shifted_affine = 8"
  by (simp add: det3_def shifted_affine_def numeral_2_eq_2)

lemma like_world_loads:
  "nib_load like_world ''/data/src.nii'' = Inr (volume [1, 1, 1] 1 UInt8 diag2 [2, 2, 2])"
  "nib_load like_world ''/data/ref.nii'' = Inr (volume [2, 1, 1] 0 Int16 shifted_affine [2, 2, 2])"
  by (simp_all add: nib_load_def like_world_def)

lemma example_env_grid:
  "\<forall>img a s i out. resample_img example_env img a (Some s) i = Inr out
     \<longrightarrow> affine out = a \<and> take 3 (shape (dataobj out)) = s"
  using resample_onto_grid by (simp add: example_env_def)

theorem resample_like_contract_witness:
  "nib_load like_world ''/data/src.nii'' = Inr (volume [1, 1, 1] 1 UInt8 diag2 [2, 2, 2])
   \<and> nib_load like_world ''/data/ref.nii'' = Inr (volume [2, 1, 1] 0 Int16 shifted_affine [2, 2, 2])
   \<and> diag2 \<noteq> shifted_affine
   \<and> (\<exists>w' out. resample_like example_env like_world ''/data/src.nii'' ''/data/ref.nii'' Nearest
          = (w', Inr ''/work/src_resampled.nii'')
        \<and> nib_load w' ''/work/src_resampled.nii'' = Inr out
        \<and> affine out = shifted_affine \<and> shape (dataobj out) = [2, 1, 1])
   \<and> resample_like example_env like_world ''/data/src.nii'' ''/data/src.nii'' Nearest
       = (like_world, Inr ''/data/src.nii'')"
proof -
  let ?src = "volume [1, 1, 1] 1 UInt8 diag2 [2, 2, 2]"
  let ?ref = "volume [2, 1, 1] 0 Int16 shifted_affine [2, 2, 2]"
  have ne: "diag2 \<noteq> shifted_affine" by (simp add: diag2_def shifted_affine_def)
  then have ne': "affine ?src \<noteq> affine ?ref" by simp
  obtain out where out: "resample_img example_env ?src (affine ?ref)
      (Some (data_shape (header ?ref))) Nearest = Inr out"
    "shape (dataobj out) = [2, 1, 1]"
    by (simp add: example_env_def resample_onto_def Let_def volume_def const_array_def
        det3_diag2 det3_shifted)
  have cs: "can_save example_env (resampled_fname example_env ''/data/src.nii'')"
    by (rule example_env_can_save)
  have fn: "resampled_fname example_env ''/data/src.nii'' = ''/work/src_resampled.nii''"
    by (simp add: resampled_fname_def example_env_def basename_def before_dot_def after_dot_def)
  note c = resample_like_contract [where ev = example_env and interpolation = Nearest,
      OF like_world_loads example_env_grid]
  from c ne' out(1) cs
  obtain w' where "resample_like example_env like_world ''/data/src.nii'' ''/data/ref.nii'' Nearest
      = (w', Inr (resampled_fname example_env ''/data/src.nii''))"
    "nib_load w' (resampled_fname example_env ''/data/src.nii'') = Inr out"
    "affine out = affine ?ref"
    by auto
  then have A: "\<exists>w' out. resample_like example_env like_world ''/data/src.nii'' ''/data/ref.nii'' Nearest
          = (w', Inr ''/work/src_resampled.nii'')
        \<and> nib_load w' ''/work/src_resampled.nii'' = Inr out
        \<and> affine out = shifted_affine \<and> shape (dataobj out) = [2, 1, 1]"
    using out(2) fn by auto
  from resample_like_contract [where ev = example_env and interpolation = Nearest,
      OF like_world_loads(1) like_world_loads(1) example_env_grid]
  have B: "resample_like example_env like_world ''/data/src.nii'' ''/data/src.nii'' Nearest
       = (like_world, Inr ''/data/src.nii'')"
    by simp
  from like_world_loads ne A B show ?thesis by blast
qed

subsection \<open>Nearest-neighbour resampling of a mask\<close>

lemma list_all2_less_drop:
  assumes "list_all2 (<) idx (shp @ rest)" "length shp = 3"
  shows "list_all2 (<) (drop 3 idx) rest"
proof -
  from assms have "list_all2 (<) (drop 3 idx) (drop 3 (shp @ rest))"
    by (intro list_all2_dropI)
  with assms(2) show ?thesis by simp
qed

lemma in_support_valid:
  assumes "in_support shp j"
  shows "list_all2 (<) (map nat j) (take 3 shp)"
  using assms unfolding in_support_def
  by (simp add: list_all2_map1) (erule list_all2_mono, linarith)

lemma sample_nearest_label:
  assumes "list_all2 (<) rest (drop 3 (shape src))"
  shows "sample_nearest src c rest \<in> labels src \<or> sample_nearest src c rest = 0"
proof (cases "in_support (shape src) (map np_rint c)")
  case True
  then have "list_all2 (<) (map nat (map np_rint c)) (take 3 (shape src))"
    by (rule in_support_valid)
  from this assms have "list_all2 (<) (map nat (map np_rint c) @ rest)
      (take 3 (shape src) @ drop 3 (shape src))"
    by (rule list_all2_appendI)
  then have "valid_index (shape src) (map nat (map np_rint c) @ rest)"
    by (simp add: valid_index_def)
  then have "item src (map nat (map np_rint c) @ rest) \<in> labels src"
    unfolding labels_def by blast
  with True show ?thesis by (simp add: sample_nearest_def)
next
  case False
  then show ?thesis by (simp add: sample_nearest_def)
qed

lemma resample_onto_nearest:
  assumes "resample_onto sm img a ts Nearest = Inr out"
  shows "\<exists>shp. length shp = 3 \<and> shape (dataobj out) = shp @ drop 3 (shape (dataobj img))
     \<and> (\<forall>idx. item (dataobj out) idx
           = sample_nearest (dataobj img) (source_coords (affine img) a (take 3 idx))
               (drop 3 idx))"
proof (cases ts)
  case None
  obtain nx ny nz where "cover sm (shape (dataobj img)) (affine img) a = (nx, ny, nz)"
    by (cases "cover sm (shape (dataobj img)) (affine img) a")
  with assms None have "shape (dataobj out) = [nx, ny, nz] @ drop 3 (shape (dataobj img))"
    "\<forall>idx. item (dataobj out) idx
       = sample_nearest (dataobj img) (source_coords (affine img) a (take 3 idx)) (drop 3 idx)"
    by (auto simp: resample_onto_def Let_def split: if_splits)
  moreover have "length [nx, ny, nz] = 3" by simp
  ultimately show ?thesis by blast
next
  case (Some s)
  with assms have "length s = 3" "shape (dataobj out) = s @ drop 3 (shape (dataobj img))"
    "\<forall>idx. item (dataobj out) idx
       = sample_nearest (dataobj img) (source_coords (affine img) a (take 3 idx)) (drop 3 idx)"
    by (auto simp: resample_onto_def Let_def split: if_splits)
  then show ?thesis by blast
qed

text \<open>
  C8 (amended). Every voxel of a mask resampled with nearest-neighbour interpolation holds
  either a label of the source mask or the fill value 0.
\<close>

theorem nearest_labels:
  assumes "resample_onto sm mask_nii target_affine target_shape Nearest = Inr out"
    and "valid_index (shape (dataobj out)) idx"
  shows "item (dataobj out) idx \<in> labels (dataobj mask_nii) \<or> item (dataobj out) idx = 0"
proof -
  let ?src = "dataobj mask_nii"
  from resample_onto_nearest [OF assms(1)] obtain shp where
    shp: "length shp = 3" "shape (dataobj out) = shp @ drop 3 (shape ?src)"
    and it: "item (dataobj out) idx
      = sample_nearest ?src (source_coords (affine mask_nii) target_affine (take 3 idx))
          (drop 3 idx)"
    by blast
  from assms(2) shp have "list_all2 (<) (drop 3 idx) (drop 3 (shape ?src))"
    by (auto simp: valid_index_def intro: list_all2_less_drop)
  from sample_nearest_label [OF this] it show ?thesis by simp
qed

text \<open>The mask of \<open>resample_to_axial\<close> is resampled with nearest-neighbour interpolation and
  no target shape.\<close>

lemma resample_mask_nearest:
  "resample_mask ev (Some mask_nii) target = Inr (Some out)
     \<longleftrightarrow> resample_img ev mask_nii target None Nearest = Inr out"
  by (simp add: resample_mask_def split: sum.splits)

lemma unit_mask_labels: "labels (dataobj (volume [1, 1, 1] 1 UInt8 diag2 [2, 2, 2])) = {1}"
proof -
  have "valid_index [1, 1, 1] [0, 0, 0]" by (simp add: valid_index_def)
  then show ?thesis
    by (auto simp: labels_def volume_def const_array_def)
qed

lemma source_coords_same: "source_coords diag2 diag2 [0, 0, 0] = [0, 0, 0]"
  by (simp add: source_coords_def apply_affine_def unapply_affine_def det3_def Let_def
      diag2_def numeral_2_eq_2)

lemma np_rint_0_1: "np_rint 0 = 0" "np_rint 1 = 1"
  by (simp_all add: np_rint_def)

lemma det3_rotated: "det3 rotated_affine = 125"
  by (simp add: det3_def rotated_affine_def numeral_2_eq_2)

lemma base_affine_rotated:
  "base_affine (volume [2, 2, 2] v dt rotated_affine [5, 5, 5])
     = Inr [[5, 0, 0, - 5], [0, 5, 0, - 5], [0, 0, 5, - 5], [0, 0, 0, 1]]"
  by (simp add: base_affine_def volume_def rotated_affine_def np_mul_def np_diag_def np_eye_def
      np_fill_diagonal_def set_entry_def set_translation_def upt_0_4 Let_def numeral_2_eq_2)

lemma det3_axial: "det3 [[5, 0, 0, - 5], [0, 5, 0, - 5], [0, 0, 5, - 5], [0, 0, 0, 1]] = 125"
  by (simp add: det3_def numeral_2_eq_2)

lemma bounding_cover_rotated:
  "bounding_cover [2, 2, 2] rotated_affine
     [[5, 0, 0, - 5], [0, 5, 0, - 5], [0, 0, 5, - 5], [0, 0, 0, 1]] = (3, 4, 2)"
proof -
  have c: "\<lceil>8 / 5 :: real\<rceil> = 2" "\<lceil>12 / 5 :: real\<rceil> = 3" by linarith+
  show ?thesis
  by (simp add: bounding_cover_def corners_def apply_affine_def unapply_affine_def det3_def
      rotated_affine_def Let_def numeral_2_eq_2 c)
qed

lemma source_coords_rotated:
  "source_coords rotated_affine [[5, 0, 0, - 5], [0, 5, 0, - 5], [0, 0, 5, - 5], [0, 0, 0, 1]]
     [0, 0, 0] = [- 7 / 5, 1 / 5, 0]"
  "source_coords rotated_affine [[5, 0, 0, - 5], [0, 5, 0, - 5], [0, 0, 5, - 5], [0, 0, 0, 1]]
     [1, 1, 0] = [0, 0, 0]"
  by (simp_all add: source_coords_def apply_affine_def unapply_affine_def det3_def Let_def
      rotated_affine_def numeral_2_eq_2)

lemma np_rint_rotated: "np_rint (- 7 / 5) = - 1" "np_rint (1 / 5) = 0"
proof -
  have "\<lfloor>- 7 / 5 :: real\<rfloor> = - 2" "\<lfloor>1 / 5 :: real\<rfloor> = 0" by linarith+
  then show "np_rint (- 7 / 5) = - 1" "np_rint (1 / 5) = 0"
    by (simp_all add: np_rint_def Let_def)
qed

lemma box_resample_ok:
  assumes "shape (dataobj img) = [2, 2, 2]" "affine img = rotated_affine"
  shows "\<exists>out. resample_img box_env img
            [[5, 0, 0, - 5], [0, 5, 0, - 5], [0, 0, 5, - 5], [0, 0, 0, 1]] None i = Inr out
     \<and> shape (dataobj out) = [3, 4, 2]
     \<and> (i = Nearest \<longrightarrow>
          item (dataobj out) [0, 0, 0] = 0
          \<and> item (dataobj out) [1, 1, 0] = item (dataobj img) [0, 0, 0])"
proof -
  have sc: "source_coords rotated_affine
      [[5, 0, 0, - 5], [0, 5, 0, - 5], [0, 0, 5, - 5], [0, 0, 0, 1]] [Suc 0, Suc 0, 0]
      = [0, 0, 0]"
    using source_coords_rotated(2) by simp
  have nr: "np_rint (- (7 / 5)) = - 1"
    using np_rint_rotated(1) by simp
  show ?thesis
    using assms
    by (simp add: box_env_def box_sampler_def resample_onto_def Let_def det3_rotated det3_axial
        bounding_cover_rotated source_coords_rotated(1) sc sample_nearest_def in_support_def
        nr np_rint_rotated(2) np_rint_0_1)
qed

lemma resample_to_axial_returns_mask:
  assumes "base_affine mag_nii = Inr T" "decompose mag_nii pha_nii = Inr (re, im)"
    and "resample_img ev re T None Continuous = Inr re'"
    and "resample_img ev im T None Continuous = Inr im'"
    and "resample_mask ev mask_nii T = Inr k"
    and "shape (dataobj re') = shape (dataobj im')"
  shows "\<exists>m p. resample_to_axial ev mag_nii pha_nii mask_nii = Inr (m, p, k)"
proof -
  from recompose_ok [OF assms(6)] obtain m p where
    "recompose (cast ev) mag_nii pha_nii re' im' = Inr (m, p)" by blast
  with assms(1-5) show ?thesis
    by (simp add: resample_to_axial_def)
qed

lemma rotated_mask_labels:
  "labels (dataobj (volume [2, 2, 2] 1 UInt8 rotated_affine [5, 5, 5])) = {1}"
proof -
  have "valid_index [2, 2, 2] [0, 0, 0]" by (simp add: valid_index_def)
  then show ?thesis
    by (auto simp: labels_def volume_def const_array_def)
qed

text \<open>
  C8 as stated fails on the mask path of \<open>resample_to_axial\<close>: for an oblique acquisition
  the axial grid that covers the source reaches beyond it, and a mask whose only label is 1
  gets the value 0 there, which is not one of its labels; inside the source the label is
  kept.
\<close>

theorem nearest_labels_counterexample:
  "base_affine (volume [2, 2, 2] 100 Int16 rotated_affine [5, 5, 5])
     = Inr [[5, 0, 0, - 5], [0, 5, 0, - 5], [0, 0, 5, - 5], [0, 0, 0, 1]]
   \<and> bounding_cover [2, 2, 2] rotated_affine
       [[5, 0, 0, - 5], [0, 5, 0, - 5], [0, 0, 5, - 5], [0, 0, 0, 1]] = (3, 4, 2)
   \<and> labels (dataobj (volume [2, 2, 2] 1 UInt8 rotated_affine [5, 5, 5])) = {1}
   \<and> (\<exists>m p out.
         resample_to_axial box_env (volume [2, 2, 2] 100 Int16 rotated_affine [5, 5, 5])
           (volume [2, 2, 2] (1 / 2) Float32 rotated_affine [5, 5, 5])
           (Some (volume [2, 2, 2] 1 UInt8 rotated_affine [5, 5, 5])) = Inr (m, p, Some out)
         \<and> shape (dataobj out) = [3, 4, 2]
         \<and> valid_index (shape (dataobj out)) [1, 1, 0]
         \<and> item (dataobj out) [1, 1, 0] = 1
         \<and> valid_index (shape (dataobj out)) [0, 0, 0]
         \<and> item (dataobj out) [0, 0, 0] = 0
         \<and> item (dataobj out) [0, 0, 0]
             \<notin> labels (dataobj (volume [2, 2, 2] 1 UInt8 rotated_affine [5, 5, 5])))"
proof -
  let ?mag = "volume [2, 2, 2] 100 Int16 rotated_affine [5, 5, 5]"
  let ?pha = "volume [2, 2, 2] (1 / 2) Float32 rotated_affine [5, 5, 5]"
  let ?mask = "volume [2, 2, 2] 1 UInt8 rotated_affine [5, 5, 5]"
  let ?T = "[[5, 0, 0, - 5], [0, 5, 0, - 5], [0, 0, 5, - 5], [0, 0, 0, 1 :: real]]"
  have b: "base_affine ?mag = Inr ?T" by (rule base_affine_rotated)
  have "shape (dataobj ?mag) = shape (dataobj ?pha)" by (simp add: volume_def const_array_def)
  from decompose_ok [OF this] obtain re im where
    dc: "decompose ?mag ?pha = Inr (re, im)"
    and g: "affine re = rotated_affine" "affine im = rotated_affine"
      "shape (dataobj re) = [2, 2, 2]" "shape (dataobj im) = [2, 2, 2]"
    by (auto simp: volume_def const_array_def)
  from box_resample_ok [OF g(3) g(1), of Continuous] obtain re' where
    re': "resample_img box_env re ?T None Continuous = Inr re'" "shape (dataobj re') = [3, 4, 2]"
    by blast
  from box_resample_ok [OF g(4) g(2), of Continuous] obtain im' where
    im': "resample_img box_env im ?T None Continuous = Inr im'" "shape (dataobj im') = [3, 4, 2]"
    by blast
  have "shape (dataobj ?mask) = [2, 2, 2]" "affine ?mask = rotated_affine"
    by (simp_all add: volume_def const_array_def)
  from box_resample_ok [OF this, of Nearest] obtain out where
    out: "resample_img box_env ?mask ?T None Nearest = Inr out"
      "shape (dataobj out) = [3, 4, 2]" "item (dataobj out) [0, 0, 0] = 0"
      "item (dataobj out) [1, 1, 0] = item (dataobj ?mask) [0, 0, 0]"
    by blast
  have o1: "item (dataobj out) [1, 1, 0] = 1"
    using out(4) by (simp add: volume_def const_array_def)
  have k: "resample_mask box_env (Some ?mask) ?T = Inr (Some out)"
    using out(1) by (simp add: resample_mask_def)
  have s: "shape (dataobj re') = shape (dataobj im')" using re'(2) im'(2) by simp
  from resample_to_axial_returns_mask [OF b dc re'(1) im'(1) k s] obtain m p where
    r: "resample_to_axial box_env ?mag ?pha (Some ?mask) = Inr (m, p, Some out)"
    by blast
  have v: "valid_index (shape (dataobj out)) [1, 1, 0]"
    "valid_index (shape (dataobj out)) [0, 0, 0]"
    by (simp_all add: out(2) valid_index_def)
  have n: "item (dataobj out) [0, 0, 0] \<notin> labels (dataobj ?mask)"
    unfolding out(3) rotated_mask_labels by simp
  from b bounding_cover_rotated rotated_mask_labels r out(2) v o1 out(3) n
  show ?thesis by blast
qed

lemma unit_mask_same:
  "\<exists>out. resample_onto toy_sampler (volume [1, 1, 1] 1 UInt8 diag2 [2, 2, 2]) diag2
       (Some [1, 1, 1]) Nearest = Inr out
     \<and> shape (dataobj out) = [1, 1, 1] \<and> item (dataobj out) [0, 0, 0] = 1"
  by (simp add: resample_onto_def Let_def volume_def const_array_def det3_diag2
      source_coords_same sample_nearest_def in_support_def np_rint_0_1)

theorem nearest_labels_witness:
  "\<exists>out. resample_onto toy_sampler (volume [1, 1, 1] 1 UInt8 diag2 [2, 2, 2]) diag2
       (Some [1, 1, 1]) Nearest = Inr out
     \<and> valid_index (shape (dataobj out)) [0, 0, 0]
     \<and> item (dataobj out) [0, 0, 0] = 1
     \<and> (item (dataobj out) [0, 0, 0] \<in> labels (dataobj (volume [1, 1, 1] 1 UInt8 diag2 [2, 2, 2]))
         \<or> item (dataobj out) [0, 0, 0] = 0)"
proof -
  from unit_mask_same obtain out where
    out: "resample_onto toy_sampler (volume [1, 1, 1] 1 UInt8 diag2 [2, 2, 2]) diag2
       (Some [1, 1, 1]) Nearest = Inr out"
      "shape (dataobj out) = [1, 1, 1]" "item (dataobj out) [0, 0, 0] = 1"
    by blast
  have v: "valid_index (shape (dataobj out)) [0, 0, 0]"
    by (simp add: out(2) valid_index_def)
  from nearest_labels [OF out(1) v] out(1,3) v show ?thesis by blast
qed

subsection \<open>Singular target affines and non-positive voxel sizes\<close>

lemma base_affine_errors: "base_affine mag_nii = Inl e \<Longrightarrow> e = ShapeMismatchError"
  by (auto simp: base_affine_def np_mul_def Let_def split: sum.splits if_splits)

lemma np_binop_errors: "np_binop f a b = Inl e \<Longrightarrow> e = ShapeMismatchError"
  by (auto simp: np_binop_def split: option.splits)

lemma decompose_errors: "decompose mag_nii pha_nii = Inl e \<Longrightarrow> e = ShapeMismatchError"
  by (auto simp: decompose_def Let_def split: sum.splits dest: np_binop_errors)

lemma recompose_errors: "recompose cst mag_nii pha_nii re im = Inl e \<Longrightarrow> e = ShapeMismatchError"
  by (auto simp: recompose_def Let_def split: sum.splits dest: np_binop_errors)

lemma resample_mask_errors:
  "resample_mask ev mask_nii target = Inl e \<Longrightarrow> \<exists>img i. resample_img ev img target None i = Inl e"
  by (auto simp: resample_mask_def split: option.splits sum.splits)

lemma resample_to_axial_errors:
  assumes "resample_to_axial ev mag_nii pha_nii mask_nii = Inl e"
  shows "e = ShapeMismatchError \<or> (\<exists>img a i. resample_img ev img a None i = Inl e)"
proof (cases "base_affine mag_nii")
  case (Inl e1)
  with assms show ?thesis by (auto simp: resample_to_axial_def dest: base_affine_errors)
next
  case T: (Inr T)
  show ?thesis
  proof (cases "decompose mag_nii pha_nii")
    case (Inl e2)
    with assms T show ?thesis by (auto simp: resample_to_axial_def dest: decompose_errors)
  next
    case (Inr ri)
    obtain re im where ri: "ri = (re, im)" by (cases ri)
    show ?thesis
    proof (cases "resample_img ev re T None Continuous")
      case (Inl e3)
      with assms T Inr ri have "e = e3" by (simp add: resample_to_axial_def)
      with Inl show ?thesis by blast
    next
      case re': (Inr re')
      show ?thesis
      proof (cases "resample_img ev im T None Continuous")
        case (Inl e4)
        with assms T Inr ri re' have "e = e4" by (simp add: resample_to_axial_def)
        with Inl show ?thesis by blast
      next
        case im': (Inr im')
        show ?thesis
        proof (cases "resample_mask ev mask_nii T")
          case (Inl e5)
          with assms T Inr ri re' im' have "e = e5" by (simp add: resample_to_axial_def)
          with Inl show ?thesis by (blast dest: resample_mask_errors)
        next
          case k: (Inr k)
          with assms T Inr ri re' im'
          have "recompose (cast ev) mag_nii pha_nii re' im' = Inl e"
            by (simp add: resample_to_axial_def split: sum.splits prod.splits)
          then show ?thesis by (blast dest: recompose_errors)
        qed
      qed
    qed
  qed
qed

lemma resample_to_axial_first_failure:
  assumes "base_affine mag_nii = Inr T" "decompose mag_nii pha_nii = Inr (re, im)"
    and "resample_img ev re T None Continuous = Inl e"
  shows "resample_to_axial ev mag_nii pha_nii mask_nii = Inl e"
  using assms by (simp add: resample_to_axial_def)

text \<open>
  C9 (amended). \<open>resample_to_axial\<close> validates no geometry and raises no error of its own
  for it: whatever the determinant of the target affine and the signs of the voxel sizes,
  the invocation fails only with NumPy's broadcasting error or with an error the resampling
  library raised for a call without a target shape; the target affine goes to the library as
  built, and a failure of the first library call is the invocation's failure, before any
  output; when the library returns both channels on one shape, the invocation returns its
  images.
\<close>

theorem no_geometry_validation:
  "(\<forall>e. resample_to_axial ev mag_nii pha_nii mask_nii = Inl e \<longrightarrow>
        e = ShapeMismatchError \<or> (\<exists>img a i. resample_img ev img a None i = Inl e))
   \<and> (\<forall>T re im e. base_affine mag_nii = Inr T \<and> decompose mag_nii pha_nii = Inr (re, im)
          \<and> resample_img ev re T None Continuous = Inl e
        \<longrightarrow> resample_to_axial ev mag_nii pha_nii mask_nii = Inl e)
   \<and> (\<forall>T re im re' im'. base_affine mag_nii = Inr T \<and> decompose mag_nii pha_nii = Inr (re, im)
          \<and> resample_img ev re T None Continuous = Inr re'
          \<and> resample_img ev im T None Continuous = Inr im'
          \<and> shape (dataobj re') = shape (dataobj im')
        \<longrightarrow> (\<exists>m p. resample_to_axial ev mag_nii pha_nii None = Inr (m, p, None)))"
  using resample_to_axial_errors [of ev mag_nii pha_nii mask_nii]
    resample_to_axial_first_failure [of mag_nii _ pha_nii _ _ ev _ mask_nii]
    resample_to_axial_returns [of mag_nii _ pha_nii _ _ ev]
  by blast

lemma base_affine_sagittal:
  "base_affine (volume [2, 2, 2] 100 Int16 sagittal_affine [2, 2, 2])
     = Inr [[0, 0, 0, 0], [0, 0, 0, 0], [0, 0, 0, 0], [0, 0, 0, 1]]"
  by (simp add: base_affine_def volume_def sagittal_affine_def np_mul_def np_diag_def np_eye_def
      np_fill_diagonal_def set_entry_def set_translation_def upt_0_4 Let_def numeral_2_eq_2)

lemma base_affine_negative:
  "base_affine (volume [2, 2, 2] 100 Int16 diag2 [- 2, 2, 2])
     = Inr [[- 2, 0, 0, 2], [0, 2, 0, - 2], [0, 0, 2, - 2], [0, 0, 0, 1]]"
  by (simp add: base_affine_def volume_def diag2_def np_mul_def np_diag_def np_eye_def
      np_fill_diagonal_def set_entry_def set_translation_def upt_0_4 Let_def numeral_2_eq_2)

lemma det3_zero: "det3 [[0, 0, 0, 0], [0, 0, 0, 0], [0, 0, 0, 0], [0, 0, 0, 1]] = 0"
  by (simp add: det3_def)

lemma toy_resample_singular:
  "det3 T = 0 \<Longrightarrow> resample_img example_env img T ts i = Inl InterpolationError"
  by (simp add: example_env_def resample_onto_def Let_def)

lemma sagittal_fails:
  "resample_to_axial example_env (volume [2, 2, 2] 100 Int16 sagittal_affine [2, 2, 2])
      (volume [2, 2, 2] (1 / 2) Float32 sagittal_affine [2, 2, 2]) None
     = Inl InterpolationError"
proof -
  let ?m = "volume [2, 2, 2] 100 Int16 sagittal_affine [2, 2, 2]"
  let ?p = "volume [2, 2, 2] (1 / 2) Float32 sagittal_affine [2, 2, 2]"
  have "shape (dataobj ?m) = shape (dataobj ?p)" by (simp add: volume_def const_array_def)
  from decompose_ok [OF this] obtain re im where "decompose ?m ?p = Inr (re, im)" by blast
  from resample_to_axial_first_failure [OF base_affine_sagittal this
      toy_resample_singular [OF det3_zero]]
  show ?thesis .
qed

lemma negative_spacing_returns:
  "\<exists>m p. resample_to_axial example_env (volume [2, 2, 2] 100 Int16 diag2 [- 2, 2, 2])
      (volume [2, 2, 2] (1 / 2) Float32 diag2 [2, 2, 2]) None = Inr (m, p, None)"
proof -
  let ?m = "volume [2, 2, 2] 100 Int16 diag2 [- 2, 2, 2]"
  let ?p = "volume [2, 2, 2] (1 / 2) Float32 diag2 [2, 2, 2]"
  let ?T = "[[- 2, 0, 0, 2], [0, 2, 0, - 2], [0, 0, 2, - 2], [0, 0, 0, 1 :: real]]"
  have d: "det3 ?T \<noteq> 0" by (simp add: det3_def numeral_2_eq_2)
  have "shape (dataobj ?m) = shape (dataobj ?p)" by (simp add: volume_def const_array_def)
  from decompose_ok [OF this] obtain re im where
    dc: "decompose ?m ?p = Inr (re, im)" "affine re = diag2" "affine im = diag2"
      "shape (dataobj re) = [2, 2, 2]" "shape (dataobj im) = [2, 2, 2]"
    by (auto simp: volume_def const_array_def)
  from toy_resample_ok [of re ?T Continuous] dc d obtain re' where
    re': "resample_img example_env re ?T None Continuous = Inr re'"
      "shape (dataobj re') = [2, 2, 2]"
    by (auto simp: det3_diag2)
  from toy_resample_ok [of im ?T Continuous] dc d obtain im' where
    im': "resample_img example_env im ?T None Continuous = Inr im'"
      "shape (dataobj im') = [2, 2, 2]"
    by (auto simp: det3_diag2)
  from resample_to_axial_returns [OF base_affine_negative dc(1) re'(1) im'(1)] re'(2) im'(2)
  show ?thesis by simp
qed

text \<open>
  C9 as stated fails. For a sagittal acquisition the target affine is singular and the
  invocation fails with the library's error, not with \<open>GeometryError\<close>; with a negative
  voxel size the target affine is regular and the invocation returns its output.
\<close>

theorem no_geometry_validation_counterexample:
  "base_affine (volume [2, 2, 2] 100 Int16 sagittal_affine [2, 2, 2])
     = Inr [[0, 0, 0, 0], [0, 0, 0, 0], [0, 0, 0, 0], [0, 0, 0, 1]]
   \<and> det3 [[0, 0, 0, 0], [0, 0, 0, 0], [0, 0, 0, 0], [0, 0, 0, 1]] = 0
   \<and> resample_to_axial example_env (volume [2, 2, 2] 100 Int16 sagittal_affine [2, 2, 2])
        (volume [2, 2, 2] (1 / 2) Float32 sagittal_affine [2, 2, 2]) None
       \<noteq> Inl GeometryError
   \<and> zooms (header (volume [2, 2, 2] 100 Int16 diag2 [- 2, 2, 2])) ! 0 < 0
   \<and> (case resample_to_axial example_env (volume [2, 2, 2] 100 Int16 diag2 [- 2, 2, 2])
          (volume [2, 2, 2] (1 / 2) Float32 diag2 [2, 2, 2]) None of
         Inl e \<Rightarrow> False
       | Inr out \<Rightarrow> True)"
proof -
  have "zooms (header (volume [2, 2, 2] 100 Int16 diag2 [- 2, 2, 2])) ! 0 < 0"
    by (simp add: volume_def)
  moreover from negative_spacing_returns obtain m p where
    "resample_to_axial example_env (volume [2, 2, 2] 100 Int16 diag2 [- 2, 2, 2])
      (volume [2, 2, 2] (1 / 2) Float32 diag2 [2, 2, 2]) None = Inr (m, p, None)"
    by blast
  then have "case resample_to_axial example_env (volume [2, 2, 2] 100 Int16 diag2 [- 2, 2, 2])
          (volume [2, 2, 2] (1 / 2) Float32 diag2 [2, 2, 2]) None of
         Inl e \<Rightarrow> False
       | Inr out \<Rightarrow> True"
    by (simp only: sum.case)
  ultimately show ?thesis
    using base_affine_sagittal det3_zero by (simp only: sagittal_fails) simp
qed

theorem no_geometry_validation_witness:
  "base_affine (volume [2, 2, 2] 100 Int16 sagittal_affine [2, 2, 2])
     = Inr [[0, 0, 0, 0], [0, 0, 0, 0], [0, 0, 0, 0], [0, 0, 0, 1]]
   \<and> resample_to_axial example_env (volume [2, 2, 2] 100 Int16 sagittal_affine [2, 2, 2])
        (volume [2, 2, 2] (1 / 2) Float32 sagittal_affine [2, 2, 2]) None
       = Inl InterpolationError
   \<and> (\<exists>img a i. resample_img example_env img a None i = Inl InterpolationError)"
proof -
  let ?m = "volume [2, 2, 2] 100 Int16 sagittal_affine [2, 2, 2]"
  let ?p = "volume [2, 2, 2] (1 / 2) Float32 sagittal_affine [2, 2, 2]"
  let ?Z = "[[0, 0, 0, 0], [0, 0, 0, 0], [0, 0, 0, 0], [0, 0, 0, 1 :: real]]"
  have "shape (dataobj ?m) = shape (dataobj ?p)" by (simp add: volume_def const_array_def)
  from decompose_ok [OF this] obtain re im where dc: "decompose ?m ?p = Inr (re, im)" by blast
  have f: "resample_img example_env re ?Z None Continuous = Inl InterpolationError"
    by (rule toy_resample_singular [OF det3_zero])
  note t = no_geometry_validation [of example_env ?m ?p None]
  from t base_affine_sagittal dc f
  have r: "resample_to_axial example_env ?m ?p None = Inl InterpolationError" by blast
  with t have "InterpolationError = ShapeMismatchError
      \<or> (\<exists>img a i. resample_img example_env img a None i = Inl InterpolationError)"
    by blast
  then have "\<exists>img a i. resample_img example_env img a None i = Inl InterpolationError"
    by simp
  with base_affine_sagittal r show ?thesis by blast
qed

end
